theory Spec2Isabelle
  imports Complex_Main
begin

section \<open>Data model (types.ts)\<close>

record InspirationFile =
  base64 :: string
  mimeType :: string
  name :: string
  description :: string
  previewUrl :: string

record UserInput =
  idea :: string
  inspirationImages :: "InspirationFile list"
  inspirationVideos :: "InspirationFile list"
  inspirationAudio :: "InspirationFile option"
  duration :: string
  mood :: string
  aspectRatio :: string
  audience :: string

record Script =
  title :: string
  logline :: string
  fullScript :: string

section \<open>JavaScript values and errors\<close>

text \<open>
  What \<^verbatim>\<open>JSON.parse\<close> returns is an untyped value: the TypeScript types the service
  writes on it are not checked when the program runs. A value read from a parsed
  response is therefore a \<open>json\<close>, and \<open>None\<close> of \<open>json option\<close> is JavaScript's
  \<^verbatim>\<open>undefined\<close>. An object keeps its own properties as an association list.
\<close>

datatype json =
    JNull
  | JBool bool
  | JNum real
  | JStr string
  | JArr "json list"
  | JObj "(string \<times> json) list"

text \<open>
  Exceptions are values. \<open>Error m\<close> is \<^verbatim>\<open>new Error(m)\<close>; \<open>TypeError\<close> is what reading a
  property of \<^verbatim>\<open>null\<close> or \<^verbatim>\<open>undefined\<close> throws; \<open>SyntaxError\<close> is what
  \<^verbatim>\<open>JSON.parse\<close> throws; \<open>Rejected m\<close> is a rejection of a remote call.
\<close>

datatype error = Error string | TypeError | SyntaxError | Rejected string

text \<open>
  Reading the property \<open>k\<close> of a parsed value: \<^verbatim>\<open>null\<close> throws; an object gives its own
  property or \<^verbatim>\<open>undefined\<close>; a boolean, number, string or array gives \<^verbatim>\<open>undefined\<close>
  for the three names the service reads (\<^verbatim>\<open>scripts\<close>, \<^verbatim>\<open>videoPrompt\<close>,
  \<^verbatim>\<open>keyframeEditPrompt\<close>), none of which is a property of a prototype.
\<close>

fun get_prop :: "json \<Rightarrow> string \<Rightarrow> error + json option" where
  "get_prop JNull k = Inl TypeError"
| "get_prop (JObj kvs) k = Inr (map_of kvs k)"
| "get_prop v k = Inr None"

text \<open>Truthiness, as \<^verbatim>\<open>!x\<close>, \<^verbatim>\<open>x || y\<close> and \<^verbatim>\<open>x ? a : b\<close> test it.\<close>

fun truthy :: "json option \<Rightarrow> bool" where
  "truthy None = False"
| "truthy (Some JNull) = False"
| "truthy (Some (JBool b)) = b"
| "truthy (Some (JNum x)) = (x \<noteq> 0)"
| "truthy (Some (JStr s)) = (s \<noteq> [])"
| "truthy (Some (JArr xs)) = True"
| "truthy (Some (JObj kvs)) = True"

text \<open>\<^verbatim>\<open>xs.join(sep)\<close> on an array of strings.\<close>

fun join :: "string \<Rightarrow> string list \<Rightarrow> string" where
  "join sep [] = []"
| "join sep [x] = x"
| "join sep (x # y # ys) = x @ sep @ join sep (y # ys)"

text \<open>
  \<^verbatim>\<open>s.trim()\<close>. A string is the list of the bytes of its UTF-8 encoding, so each
  character \<^verbatim>\<open>trim\<close> strips is the byte sequence that encodes it: the white space
  U+0009, U+000B, U+000C, U+0020, U+00A0, U+1680, U+2000 to U+200A, U+202F, U+205F,
  U+3000, U+FEFF and the line terminators U+000A, U+000D, U+2028, U+2029.
\<close>

definition whiteSpace :: "string list" where
  "whiteSpace =
     [[CHR 0x09], [CHR 0x0A], [CHR 0x0B], [CHR 0x0C], [CHR 0x0D], [CHR 0x20],
      [CHR 0xC2, CHR 0xA0],
      [CHR 0xE1, CHR 0x9A, CHR 0x80],
      [CHR 0xE2, CHR 0x80, CHR 0x80], [CHR 0xE2, CHR 0x80, CHR 0x81],
      [CHR 0xE2, CHR 0x80, CHR 0x82], [CHR 0xE2, CHR 0x80, CHR 0x83],
      [CHR 0xE2, CHR 0x80, CHR 0x84], [CHR 0xE2, CHR 0x80, CHR 0x85],
      [CHR 0xE2, CHR 0x80, CHR 0x86], [CHR 0xE2, CHR 0x80, CHR 0x87],
      [CHR 0xE2, CHR 0x80, CHR 0x88], [CHR 0xE2, CHR 0x80, CHR 0x89],
      [CHR 0xE2, CHR 0x80, CHR 0x8A],
      [CHR 0xE2, CHR 0x80, CHR 0xA8], [CHR 0xE2, CHR 0x80, CHR 0xA9],
      [CHR 0xE2, CHR 0x80, CHR 0xAF],
      [CHR 0xE2, CHR 0x81, CHR 0x9F],
      [CHR 0xE3, CHR 0x80, CHR 0x80],
      [CHR 0xEF, CHR 0xBB, CHR 0xBF]]"

text \<open>Strips from the front of \<open>s\<close> every leading occurrence of a sequence of \<open>ps\<close>.\<close>

function strip :: "string list \<Rightarrow> string \<Rightarrow> string" where
  "strip ps s =
     (case find (\<lambda>p. p \<noteq> [] \<and> take (length p) s = p) ps of
        None \<Rightarrow> s
      | Some p \<Rightarrow> strip ps (drop (length p) s))"
  by pat_completeness auto
termination
proof (relation "measure (\<lambda>(ps, s). length s)")
  show "wf (measure (\<lambda>(ps, s). length s))" by simp
next
  fix ps :: "string list" and s p :: string
  assume "find (\<lambda>p. p \<noteq> [] \<and> take (length p) s = p) ps = Some p"
  then have p: "p \<noteq> []" and t: "take (length p) s = p"
    by (auto simp: find_Some_iff)
  from t have "length (take (length p) s) = length p"
    by simp
  then have "length p \<le> length s"
    by (simp add: min_def split: if_splits)
  with p show "((ps, drop (length p) s), (ps, s)) \<in> measure (\<lambda>(ps, s). length s)"
    by (cases p) simp_all
qed

definition trim :: "string \<Rightarrow> string" where
  "trim s = rev (strip (map rev whiteSpace) (rev (strip whiteSpace s)))"

section \<open>The remote capabilities (@google/genai, fetch)\<close>

datatype SchemaType = OBJECT | ARRAY | STRING

datatype Schema =
  Schema (schema_type: SchemaType)
         (schema_description: "string option")
         (properties: "(string \<times> Schema) list")
         (items: "Schema option")
         (required: "string list")

datatype Modality = IMAGE | TEXT

record Blob =
  data :: string
  blob_mimeType :: string

text \<open>
  A part of a content: inline data, or a text. The text of a part the service sends is
  the value it read from a parsed response, so it is a \<open>json\<close>.
\<close>

datatype Part = Part (inlineData: "Blob option") (part_text: "json option")

datatype Contents = ContentText string | ContentParts "Part list"

record GenerateContentConfig =
  responseMimeType :: "string option"
  responseSchema :: "Schema option"
  responseModalities :: "Modality list option"

record GenerateContentParameters =
  gc_model :: string
  gc_contents :: Contents
  gc_config :: "GenerateContentConfig option"

text \<open>
  A response of \<^verbatim>\<open>generateContent\<close>: its \<^verbatim>\<open>text\<close> (which may be \<^verbatim>\<open>undefined\<close>) and the
  parts of each candidate. An empty list of candidates stands for every response on which
  \<^verbatim>\<open>response.candidates[0].content.parts\<close> cannot be read.
\<close>

record GenerateContentResponse =
  resp_text :: "string option"
  candidates :: "Part list list"

record Image =
  imageBytes :: string
  image_mimeType :: string

record GenerateImagesParameters =
  gi_model :: string
  gi_prompt :: string
  gi_numberOfImages :: nat
  gi_outputMimeType :: string
  gi_aspectRatio :: string

record GenerateImagesResponse =
  generatedImages :: "Image option list option"

record GenerateVideosParameters =
  gv_model :: string
  gv_prompt :: "json option"
  gv_image :: Image
  gv_numberOfVideos :: nat

text \<open>
  A long-running operation: an opaque handle, the completion flag \<^verbatim>\<open>done\<close> (unset reads
  as false) and, under \<^verbatim>\<open>response?.generatedVideos?.[i]?.video?.uri\<close>, the address of
  each generated video, \<open>None\<close> wherever a link of that chain is missing.
\<close>

record Operation =
  op_name :: string
  op_done :: bool
  op_response :: "string option list option"

record FetchResponse =
  ok :: bool
  statusText :: string
  blob :: "error + string"

text \<open>
  Everything outside the service: the credential, \<^verbatim>\<open>JSON.parse\<close>, the remote calls,
  \<^verbatim>\<open>fetch\<close> and \<^verbatim>\<open>URL.createObjectURL\<close>. A remote call answers a request with a
  rejection or a response; \<^verbatim>\<open>getVideosOperation\<close> also depends on how many polls came
  before it, since the remote job advances between two polls of the same handle.
\<close>

record env =
  API_KEY :: string
  JSON_parse :: "string \<Rightarrow> error + json"
  generateContent :: "GenerateContentParameters \<Rightarrow> error + GenerateContentResponse"
  generateImages :: "GenerateImagesParameters \<Rightarrow> error + GenerateImagesResponse"
  generateVideos :: "GenerateVideosParameters \<Rightarrow> error + Operation"
  getVideosOperation :: "nat \<Rightarrow> Operation \<Rightarrow> error + Operation"
  fetch :: "string \<Rightarrow> error + FetchResponse"
  createObjectURL :: "string \<Rightarrow> string"

section \<open>Effects: a trace of events and an outcome\<close>

text \<open>
  What a run does that its caller or the outside can see, in order: the progress
  callback, each remote call with its request, each timed wait (in milliseconds), and
  each \<^verbatim>\<open>console.error\<close> with the error it logs.
\<close>

datatype event =
    UpdateLoadingMessage string
  | GenerateContentCall GenerateContentParameters
  | GenerateImagesCall GenerateImagesParameters
  | GenerateVideosCall GenerateVideosParameters
  | SetTimeout nat
  | GetVideosOperationCall Operation
  | FetchCall string
  | ConsoleError string error

text \<open>
  A promise settles with a value or with an error, or is still pending when the polls
  this model is given are used up.
\<close>

datatype 'a outcome = Returned 'a | Threw error | Pending

type_synonym 'a io = "event list \<times> 'a outcome"

definition ret :: "'a \<Rightarrow> 'a io" where
  "ret a = ([], Returned a)"

definition throw :: "error \<Rightarrow> 'a io" where
  "throw e = ([], Threw e)"

definition emit :: "event \<Rightarrow> unit io" where
  "emit ev = ([ev], Returned ())"

text \<open>A remote call: the call is an event, its answer the outcome.\<close>

definition call :: "event \<Rightarrow> error + 'a \<Rightarrow> 'a io" where
  "call ev r = ([ev], (case r of Inl e \<Rightarrow> Threw e | Inr a \<Rightarrow> Returned a))"

text \<open>A value computed without an effect, or the error its computation throws.\<close>

definition lift :: "error + 'a \<Rightarrow> 'a io" where
  "lift r = ([], (case r of Inl e \<Rightarrow> Threw e | Inr a \<Rightarrow> Returned a))"

text \<open>Sequencing: the second step runs only when the first has returned.\<close>

definition io_bind :: "'a io \<Rightarrow> ('a \<Rightarrow> 'b io) \<Rightarrow> 'b io" where
  "io_bind m f =
     (case m of
        (t, Returned a) \<Rightarrow> (case f a of (t', r) \<Rightarrow> (t @ t', r))
      | (t, Threw e) \<Rightarrow> (t, Threw e)
      | (t, Pending) \<Rightarrow> (t, Pending))"

text \<open>
  \<^verbatim>\<open>try { body } catch (error) { console.error(label, error); throw new Error(msg) }\<close>
\<close>

definition try_catch :: "'a io \<Rightarrow> string \<Rightarrow> string \<Rightarrow> 'a io" where
  "try_catch body label msg =
     (case body of
        (t, Threw e) \<Rightarrow> (t @ [ConsoleError label e], Threw (Error msg))
      | (t, r) \<Rightarrow> (t, r))"

text \<open>\<^verbatim>\<open>JSON.parse(response.text)\<close>: \<^verbatim>\<open>undefined\<close> is not JSON.\<close>

definition JSON_parse_text :: "env \<Rightarrow> string option \<Rightarrow> error + json" where
  "JSON_parse_text w t = (case t of None \<Rightarrow> Inl SyntaxError | Some s \<Rightarrow> JSON_parse w s)"

section \<open>generateScripts\<close>

definition inspirationLines :: "string \<Rightarrow> InspirationFile list \<Rightarrow> string" where
  "inspirationLines kind fs =
     join ''\<newline>'' (map (\<lambda>f. ''- '' @ kind @ '' \"'' @ name f @ ''\": '' @ description f) fs)"

definition inspirationText :: "UserInput \<Rightarrow> string" where
  "inspirationText userInput =
     join ''\<newline>''
       (filter (\<lambda>s. s \<noteq> [])
          [inspirationLines ''Image'' (inspirationImages userInput),
           inspirationLines ''Video'' (inspirationVideos userInput)])"

definition scriptsPrompt :: "UserInput \<Rightarrow> string" where
  "scriptsPrompt userInput =
     ''\<newline>'' @
     ''    You are a creative assistant for a storyteller. Based on the following detailed creative brief, generate 2 distinct script ideas for a short video.\<newline>'' @
     ''\<newline>'' @
     ''    --- Creative Brief ---\<newline>'' @
     ''    Core Idea: \"'' @ idea userInput @ ''\"\<newline>'' @
     ''    \<newline>'' @
     ''    Fine-Tuning Details:\<newline>'' @
     ''    - Desired Mood & Style: '' @ mood userInput @ ''\<newline>'' @
     ''    - Target Audience: '' @ audience userInput @ ''\<newline>'' @
     ''    - Aspect Ratio: '' @ aspectRatio userInput @ ''\<newline>'' @
     ''    - Desired Duration: Approximately '' @ duration userInput @ '' seconds\<newline>'' @
     ''\<newline>'' @
     ''    User-Provided Inspirations:\<newline>'' @
     ''    '' @
     (if inspirationText userInput \<noteq> [] then inspirationText userInput
      else ''No specific visual or video inspiration provided.'') @
     ''\<newline>'' @
     ''    '' @
     (case inspirationAudio userInput of
        Some audio \<Rightarrow>
          ''- The user provided an audio track named \"'' @ name audio @ ''\" to set the tone.''
      | None \<Rightarrow> []) @
     ''\<newline>'' @
     ''    ---\<newline>'' @
     ''\<newline>'' @
     ''    For each of the 2 ideas, provide:\<newline>'' @
     ''    1. A catchy Title.\<newline>'' @
     ''    2. A concise Logline (1-2 sentences).\<newline>'' @
     ''    3. A Full Script with scene descriptions and actions, tailored to the specified duration and aspect ratio.\<newline>'' @
     ''    ''"

definition stringField :: Schema where
  "stringField = Schema STRING None [] None []"

definition scriptsSchema :: Schema where
  "scriptsSchema =
     Schema OBJECT None
       [(''scripts'',
         Schema ARRAY None []
           (Some (Schema OBJECT None
              [(''title'', stringField), (''logline'', stringField), (''fullScript'', stringField)]
              None
              [''title'', ''logline'', ''fullScript'']))
           [])]
       None
       [''scripts'']"

definition scriptsRequest :: "UserInput \<Rightarrow> GenerateContentParameters" where
  "scriptsRequest userInput =
     \<lparr> gc_model = ''gemini-2.5-flash'',
       gc_contents = ContentText (scriptsPrompt userInput),
       gc_config = Some \<lparr> responseMimeType = Some ''application/json'',
                          responseSchema = Some scriptsSchema,
                          responseModalities = None \<rparr> \<rparr>"

text \<open>\<^verbatim>\<open>jsonResponse.scripts || []\<close>\<close>

definition scripts_or_empty :: "json \<Rightarrow> error + json" where
  "scripts_or_empty jsonResponse =
     (case get_prop jsonResponse ''scripts'' of
        Inl e \<Rightarrow> Inl e
      | Inr None \<Rightarrow> Inr (JArr [])
      | Inr (Some v) \<Rightarrow> Inr (if truthy (Some v) then v else JArr []))"

definition generateScripts :: "env \<Rightarrow> UserInput \<Rightarrow> json io" where
  "generateScripts w userInput =
     try_catch
       (io_bind (call (GenerateContentCall (scriptsRequest userInput))
                      (generateContent w (scriptsRequest userInput)))
          (\<lambda>response.
        io_bind (lift (JSON_parse_text w (resp_text response)))
          (\<lambda>jsonResponse.
        lift (scripts_or_empty jsonResponse))))
       ''Error generating scripts:''
       ''Failed to generate scripts from the idea.''"

section \<open>getVideoGenerationPrompts\<close>

definition videoPromptsPrompt :: "Script \<Rightarrow> bool \<Rightarrow> string" where
  "videoPromptsPrompt script needsEditPrompt =
     ''\<newline>'' @
     ''    Based on the following script, create one or two things:\<newline>'' @
     ''    1. A concise, descriptive prompt for a video generation AI (VEO 2.0) to create a single, cohesive video that tells the story of the script. This prompt should describe the visual style, pacing, key actions, and overall mood.\<newline>'' @
     ''    '' @
     (if needsEditPrompt
      then ''2. A short, creative prompt for an image editing AI (Nano Banana) to modify a base image to become a representative keyframe for the video. This prompt should describe what to add or change to capture the video's essence.''
      else []) @
     ''\<newline>'' @
     ''    \<newline>'' @
     ''    Script Title: \"'' @ title script @ ''\"\<newline>'' @
     ''    Script Logline: \"'' @ logline script @ ''\"\<newline>'' @
     ''    Full Script: \"'' @ fullScript script @ ''\"\<newline>'' @
     ''    ''"

text \<open>
  The schema of the answer. Spreading \<^verbatim>\<open>needsEditPrompt && { keyframeEditPrompt: ... }\<close>
  into \<^verbatim>\<open>properties\<close> adds the property when the flag is true and nothing otherwise;
  \<^verbatim>\<open>required\<close> is the same list either way.
\<close>

definition videoPromptsSchema :: "bool \<Rightarrow> Schema" where
  "videoPromptsSchema needsEditPrompt =
     Schema OBJECT None
       ([(''videoPrompt'',
          Schema STRING (Some ''Prompt for VEO 2.0 video generation.'') [] None [])] @
        (if needsEditPrompt
         then [(''keyframeEditPrompt'',
                Schema STRING (Some ''Prompt for Nano Banana image editing.'') [] None [])]
         else []))
       None
       [''videoPrompt'']"

definition videoPromptsRequest :: "Script \<Rightarrow> bool \<Rightarrow> GenerateContentParameters" where
  "videoPromptsRequest script needsEditPrompt =
     \<lparr> gc_model = ''gemini-2.5-flash'',
       gc_contents = ContentText (videoPromptsPrompt script needsEditPrompt),
       gc_config = Some \<lparr> responseMimeType = Some ''application/json'',
                          responseSchema = Some (videoPromptsSchema needsEditPrompt),
                          responseModalities = None \<rparr> \<rparr>"

definition getVideoGenerationPrompts :: "env \<Rightarrow> Script \<Rightarrow> bool \<Rightarrow> json io" where
  "getVideoGenerationPrompts w script needsEditPrompt =
     io_bind (call (GenerateContentCall (videoPromptsRequest script needsEditPrompt))
                   (generateContent w (videoPromptsRequest script needsEditPrompt)))
       (\<lambda>response. lift (JSON_parse_text w (resp_text response)))"

section \<open>generateKeyframeWithEdit\<close>

definition editRequest :: "InspirationFile \<Rightarrow> json option \<Rightarrow> GenerateContentParameters" where
  "editRequest baseImage editPrompt =
     \<lparr> gc_model = ''gemini-2.5-flash-image-preview'',
       gc_contents = ContentParts
         [Part (Some \<lparr> data = base64 baseImage, blob_mimeType = mimeType baseImage \<rparr>) None,
          Part None editPrompt],
       gc_config = Some \<lparr> responseMimeType = None,
                          responseSchema = None,
                          responseModalities = Some [IMAGE, TEXT] \<rparr> \<rparr>"

text \<open>The \<^verbatim>\<open>for\<close> loop over the parts: the data of the first part that has inline data.\<close>

fun firstInlineData :: "Part list \<Rightarrow> string option" where
  "firstInlineData [] = None"
| "firstInlineData (p # ps) =
     (case inlineData p of Some b \<Rightarrow> Some (data b) | None \<Rightarrow> firstInlineData ps)"

definition generateKeyframeWithEdit :: "env \<Rightarrow> InspirationFile \<Rightarrow> json option \<Rightarrow> string io" where
  "generateKeyframeWithEdit w baseImage editPrompt =
     io_bind (call (GenerateContentCall (editRequest baseImage editPrompt))
                   (generateContent w (editRequest baseImage editPrompt)))
       (\<lambda>response.
     io_bind (lift (case candidates response of [] \<Rightarrow> Inl TypeError | ps # _ \<Rightarrow> Inr ps))
       (\<lambda>parts.
     (case firstInlineData parts of
        Some d \<Rightarrow> ret d
      | None \<Rightarrow> throw (Error ''Nano Banana model did not return an image.''))))"

section \<open>generateInitialKeyframe\<close>

record Keyframe =
  kf_base64 :: string
  kf_mimeType :: string

definition keyframePromptRequest :: "Script \<Rightarrow> string \<Rightarrow> GenerateContentParameters" where
  "keyframePromptRequest script ar =
     \<lparr> gc_model = ''gemini-2.5-flash'',
       gc_contents = ContentText
         (''Based on the following script, create a single, concise, and highly descriptive prompt for an image generation AI (Imagen 4.0) to create a beautiful and representative keyframe image. The prompt should capture the core visual essence, style, and mood of the story. The aspect ratio should be '' @
          ar @ ''.\<newline>'' @
          ''        \<newline>'' @
          ''        Script Title: \"'' @ title script @ ''\"\<newline>'' @
          ''        Script Logline: \"'' @ logline script @ ''\"\<newline>'' @
          ''        Full Script: \"'' @ fullScript script @ ''\"\<newline>'' @
          ''        \<newline>'' @
          ''        The final output should be just the prompt text, nothing else.''),
       gc_config = None \<rparr>"

definition validAspectRatios :: "string list" where
  "validAspectRatios = [''1:1'', ''3:4'', ''4:3'', ''9:16'', ''16:9'']"

definition validatedAspectRatio :: "string \<Rightarrow> string" where
  "validatedAspectRatio ar = (if ar \<in> set validAspectRatios then ar else ''16:9'')"

definition imagesRequest :: "string \<Rightarrow> string \<Rightarrow> GenerateImagesParameters" where
  "imagesRequest imagePrompt ar =
     \<lparr> gi_model = ''imagen-4.0-generate-001'',
       gi_prompt = imagePrompt,
       gi_numberOfImages = 1,
       gi_outputMimeType = ''image/png'',
       gi_aspectRatio = validatedAspectRatio ar \<rparr>"

definition generateInitialKeyframe :: "env \<Rightarrow> Script \<Rightarrow> string \<Rightarrow> Keyframe io" where
  "generateInitialKeyframe w script ar =
     io_bind (call (GenerateContentCall (keyframePromptRequest script ar))
                   (generateContent w (keyframePromptRequest script ar)))
       (\<lambda>promptGenResponse.
     io_bind (lift (case resp_text promptGenResponse of
                      None \<Rightarrow> Inl TypeError
                    | Some s \<Rightarrow> Inr (trim s)))
       (\<lambda>imagePrompt.
     io_bind (call (GenerateImagesCall (imagesRequest imagePrompt ar))
                   (generateImages w (imagesRequest imagePrompt ar)))
       (\<lambda>imageGenResponse.
     (case generatedImages imageGenResponse of
        None \<Rightarrow> throw (Error ''Imagen model did not return an image.'')
      | Some [] \<Rightarrow> throw (Error ''Imagen model did not return an image.'')
      | Some (None # _) \<Rightarrow> throw TypeError
      | Some (Some img # _) \<Rightarrow>
          ret \<lparr> kf_base64 = imageBytes img, kf_mimeType = ''image/png'' \<rparr>))))"

section \<open>generateVideo\<close>

definition videosRequest :: "json option \<Rightarrow> string \<Rightarrow> string \<Rightarrow> GenerateVideosParameters" where
  "videosRequest videoPrompt keyframeImageBase64 mime =
     \<lparr> gv_model = ''veo-2.0-generate-001'',
       gv_prompt = videoPrompt,
       gv_image = \<lparr> imageBytes = keyframeImageBase64, image_mimeType = mime \<rparr>,
       gv_numberOfVideos = 1 \<rparr>"

text \<open>
  \<^verbatim>\<open>while (!operation.done) { await wait(10000); operation = await getVideosOperation(...) }\<close>
  The source sets no bound on the polls. \<open>poll_loop w fuel n operation\<close> runs the loop
  for at most \<open>fuel\<close> polls, \<open>n\<close> polls having been made before; when the polls are used
  up and the flag is still unset, the outcome is \<open>Pending\<close>.
\<close>

fun poll_loop :: "env \<Rightarrow> nat \<Rightarrow> nat \<Rightarrow> Operation \<Rightarrow> Operation io" where
  "poll_loop w 0 n operation =
     (if op_done operation then ret operation else ([], Pending))"
| "poll_loop w (Suc fuel) n operation =
     (if op_done operation then ret operation
      else io_bind (emit (SetTimeout 10000))
             (\<lambda>_. io_bind (call (GetVideosOperationCall operation)
                                 (getVideosOperation w n operation))
                     (\<lambda>operation'. poll_loop w fuel (Suc n) operation')))"

text \<open>\<^verbatim>\<open>operation.response?.generatedVideos?.[0]?.video?.uri\<close>\<close>

definition downloadLink :: "Operation \<Rightarrow> string option" where
  "downloadLink operation =
     (case op_response operation of
        None \<Rightarrow> None
      | Some [] \<Rightarrow> None
      | Some (u # _) \<Rightarrow> u)"

definition generateVideo :: "env \<Rightarrow> nat \<Rightarrow> json option \<Rightarrow> string \<Rightarrow> string \<Rightarrow> string io" where
  "generateVideo w fuel videoPrompt keyframeImageBase64 mime =
     io_bind (call (GenerateVideosCall (videosRequest videoPrompt keyframeImageBase64 mime))
                   (generateVideos w (videosRequest videoPrompt keyframeImageBase64 mime)))
       (\<lambda>operation0.
     io_bind (poll_loop w fuel 0 operation0)
       (\<lambda>operation.
     (case downloadLink operation of
        None \<Rightarrow> throw (Error ''Video generation did not produce a download link.'')
      | Some l \<Rightarrow>
          if l = [] then throw (Error ''Video generation did not produce a download link.'')
          else ret l)))"

section \<open>generateVideoFromScript\<close>

record PipelineResult =
  videoUrl :: string
  keyframeUrl :: string

text \<open>
  The body of the \<^verbatim>\<open>try\<close> block up to the keyframe: the keyframe's bytes, its media
  type and the video prompt, by the branch the inspiration images select.
\<close>

definition keyframeStage :: "env \<Rightarrow> Script \<Rightarrow> UserInput \<Rightarrow> (string \<times> string \<times> json option) io" where
  "keyframeStage w script userInput =
     (if length (inspirationImages userInput) > 0 then
        (let inspirationImage = inspirationImages userInput ! 0;
             keyframeMimeType = mimeType inspirationImage
         in
         io_bind (emit (UpdateLoadingMessage ''Developing creative prompts for AI models...''))
           (\<lambda>_.
         io_bind (getVideoGenerationPrompts w script True)
           (\<lambda>prompts.
         io_bind (lift (get_prop prompts ''videoPrompt''))
           (\<lambda>videoPrompt.
         io_bind (emit (UpdateLoadingMessage ''Editing inspiration image to create a keyframe...''))
           (\<lambda>_.
         io_bind (lift (get_prop prompts ''keyframeEditPrompt''))
           (\<lambda>keyframeEditPrompt.
         if \<not> truthy keyframeEditPrompt
         then throw (Error ''Failed to generate a keyframe editing prompt.'')
         else
         io_bind (generateKeyframeWithEdit w inspirationImage keyframeEditPrompt)
           (\<lambda>keyframeBase64.
         ret (keyframeBase64, keyframeMimeType, videoPrompt))))))))
      else
         io_bind (emit (UpdateLoadingMessage ''Generating a keyframe image from your script...''))
           (\<lambda>_.
         io_bind (generateInitialKeyframe w script (aspectRatio userInput))
           (\<lambda>kf.
         io_bind (emit (UpdateLoadingMessage ''Developing a video prompt from your script...''))
           (\<lambda>_.
         io_bind (getVideoGenerationPrompts w script False)
           (\<lambda>prompts.
         io_bind (lift (get_prop prompts ''videoPrompt''))
           (\<lambda>videoPrompt.
         ret (kf_base64 kf, kf_mimeType kf, videoPrompt)))))))"

text \<open>The rest of the \<^verbatim>\<open>try\<close> block: the video, its download, the result.\<close>

definition videoStage :: "env \<Rightarrow> nat \<Rightarrow> string \<times> string \<times> json option \<Rightarrow> PipelineResult io" where
  "videoStage w fuel k =
     (case k of (keyframeBase64, keyframeMimeType, videoPrompt) \<Rightarrow>
        io_bind (emit (UpdateLoadingMessage
                   ''Generating video with VEO 2.0 (this may take several minutes)...''))
          (\<lambda>_.
        io_bind (generateVideo w fuel videoPrompt keyframeBase64 keyframeMimeType)
          (\<lambda>videoApiUrl.
        io_bind (emit (UpdateLoadingMessage ''Downloading generated video...''))
          (\<lambda>_.
        io_bind (call (FetchCall (videoApiUrl @ ''&key='' @ API_KEY w))
                      (fetch w (videoApiUrl @ ''&key='' @ API_KEY w)))
          (\<lambda>response.
        if \<not> ok response
        then throw (Error (''Failed to download video: '' @ statusText response))
        else
        io_bind (lift (blob response))
          (\<lambda>videoBlob.
        ret \<lparr> videoUrl = createObjectURL w videoBlob,
              keyframeUrl = ''data:'' @ keyframeMimeType @ '';base64,'' @ keyframeBase64 \<rparr>))))))"

definition generateVideoFromScript :: "env \<Rightarrow> nat \<Rightarrow> Script \<Rightarrow> UserInput \<Rightarrow> PipelineResult io" where
  "generateVideoFromScript w fuel script userInput =
     try_catch
       (io_bind (keyframeStage w script userInput) (videoStage w fuel))
       ''Error in video generation pipeline:''
       ''Failed to generate the final video.''"

section \<open>Notions the properties are stated with\<close>

text \<open>Every name a schema mentions: its property names and required names, at any depth.\<close>

fun schema_names :: "Schema \<Rightarrow> string list" where
  "schema_names (Schema t d ps it req) =
     map fst ps @ req @ concat (map (\<lambda>p. schema_names (snd p)) ps) @
     (case it of None \<Rightarrow> [] | Some s \<Rightarrow> schema_names s)"

text \<open>The response schema a request asks for, if any.\<close>

definition requestedSchema :: "GenerateContentParameters \<Rightarrow> Schema option" where
  "requestedSchema req = (case gc_config req of None \<Rightarrow> None | Some c \<Rightarrow> responseSchema c)"

text \<open>
  The state of the operation the \<open>k\<close>-th poll answers with, \<open>n\<close> polls having been made
  before the first of them: the state a run of the loop observes after \<open>k\<close> polls.
\<close>

fun observed :: "env \<Rightarrow> nat \<Rightarrow> Operation \<Rightarrow> nat \<Rightarrow> error + Operation" where
  "observed w n operation 0 = Inr operation"
| "observed w n operation (Suc k) =
     (case getVideosOperation w n operation of
        Inl e \<Rightarrow> Inl e
      | Inr operation' \<Rightarrow> observed w (Suc n) operation' k)"

text \<open>A trace of polls: each poll comes right after a wait of 10000 milliseconds.\<close>

fun waits_before_polls :: "event list \<Rightarrow> bool" where
  "waits_before_polls [] = True"
| "waits_before_polls (SetTimeout ms # GetVideosOperationCall operation # rest) =
     (ms = 10000 \<and> waits_before_polls rest)"
| "waits_before_polls _ = False"

text \<open>The messages of the service.\<close>

abbreviation pipelineFailed :: error where
  "pipelineFailed \<equiv> Error ''Failed to generate the final video.''"

abbreviation scriptGenerationFailed :: error where
  "scriptGenerationFailed \<equiv> Error ''Failed to generate scripts from the idea.''"

abbreviation editPromptMissing :: error where
  "editPromptMissing \<equiv> Error ''Failed to generate a keyframe editing prompt.''"

abbreviation msgDevelopingPrompts :: event where
  "msgDevelopingPrompts \<equiv> UpdateLoadingMessage ''Developing creative prompts for AI models...''"

abbreviation msgEditingImage :: event where
  "msgEditingImage \<equiv>
     UpdateLoadingMessage ''Editing inspiration image to create a keyframe...''"

abbreviation msgGeneratingKeyframe :: event where
  "msgGeneratingKeyframe \<equiv>
     UpdateLoadingMessage ''Generating a keyframe image from your script...''"

abbreviation msgDevelopingVideoPrompt :: event where
  "msgDevelopingVideoPrompt \<equiv>
     UpdateLoadingMessage ''Developing a video prompt from your script...''"

abbreviation msgGeneratingVideo :: event where
  "msgGeneratingVideo \<equiv>
     UpdateLoadingMessage ''Generating video with VEO 2.0 (this may take several minutes)...''"

subsection \<open>Concrete runs\<close>

definition exampleScript :: Script where
  "exampleScript =
     \<lparr> title = ''Robot Chef'',
       logline = ''A robot dreams of a star.'',
       fullScript = ''Scene 1: a kitchen at dawn.'' \<rparr>"

definition exampleImage :: InspirationFile where
  "exampleImage =
     \<lparr> base64 = ''SlBFRw=='', mimeType = ''image/jpeg'', name = ''sunset.jpg'',
       description = ''warm sunset tones'', previewUrl = ''blob:1'' \<rparr>"

definition exampleAudio :: InspirationFile where
  "exampleAudio =
     \<lparr> base64 = ''TVAz'', mimeType = ''audio/mpeg'', name = ''tune.mp3'',
       description = [], previewUrl = [] \<rparr>"

text \<open>A brief with no inspiration and an aspect ratio outside the allowed list.\<close>

definition exampleBrief :: UserInput where
  "exampleBrief =
     \<lparr> idea = ''A robot chef'', inspirationImages = [], inspirationVideos = [],
       inspirationAudio = None, duration = ''15'', mood = ''Nostalgic'',
       aspectRatio = ''7:3'', audience = ''General audience'' \<rparr>"

text \<open>The same brief with one inspiration image.\<close>

definition exampleEditBrief :: UserInput where
  "exampleEditBrief = exampleBrief\<lparr> inspirationImages := [exampleImage], aspectRatio := ''9:16'' \<rparr>"

definition editPromptsText :: string where
  "editPromptsText = ''{\"videoPrompt\":\"slow pan\",\"keyframeEditPrompt\":\"add a chef hat\"}''"

definition videoPromptText :: string where
  "videoPromptText = ''{\"videoPrompt\":\"slow pan\"}''"

definition exampleOperation :: Operation where
  "exampleOperation = \<lparr> op_name = ''operations/1'', op_done = False, op_response = None \<rparr>"

text \<open>
  An outside where every call succeeds: the text model answers each request by its
  shape, the edit model returns a text part and then a WebP image, and the video is
  ready at the second poll.
\<close>

definition exampleEnv :: env where
  "exampleEnv =
     \<lparr> API_KEY = ''k'',
       JSON_parse = (\<lambda>t.
         if t = editPromptsText
         then Inr (JObj [(''videoPrompt'', JStr ''slow pan''),
                         (''keyframeEditPrompt'', JStr ''add a chef hat'')])
         else if t = videoPromptText then Inr (JObj [(''videoPrompt'', JStr ''slow pan'')])
         else if t = ''{\"scripts\":[]}'' then Inr (JObj [(''scripts'', JArr [])])
         else if t = ''null'' then Inr JNull
         else Inl SyntaxError),
       generateContent = (\<lambda>req.
         case gc_contents req of
           ContentParts ps \<Rightarrow>
             Inr \<lparr> resp_text = None,
                   candidates =
                     [[Part None (Some (JStr ''Here it is.'')),
                       Part (Some \<lparr> data = ''V0VCUA=='', blob_mimeType = ''image/webp'' \<rparr>) None]] \<rparr>
         | ContentText t \<Rightarrow>
             (case requestedSchema req of
                None \<Rightarrow> Inr \<lparr> resp_text = Some ''  A robot at a stove.  '', candidates = [] \<rparr>
              | Some sch \<Rightarrow>
                  Inr \<lparr> resp_text =
                          Some (if sch = videoPromptsSchema True then editPromptsText
                                else if sch = videoPromptsSchema False then videoPromptText
                                else ''{\"scripts\":[]}''),
                        candidates = [] \<rparr>)),
       generateImages = (\<lambda>req.
         Inr \<lparr> generatedImages =
                 Some [Some \<lparr> imageBytes = ''UE5H'', image_mimeType = ''image/png'' \<rparr>] \<rparr>),
       generateVideos = (\<lambda>req. Inr exampleOperation),
       getVideosOperation = (\<lambda>n operation.
         Inr (if n = 0 then operation
              else operation\<lparr> op_done := True,
                              op_response := Some [Some ''https://video.example/1?alt=media''] \<rparr>)),
       fetch = (\<lambda>url. Inr \<lparr> ok = True, statusText = ''OK'', blob = Inr ''MP4'' \<rparr>),
       createObjectURL = (\<lambda>b. ''blob:'' @ b) \<rparr>"

text \<open>The text model answers every request with the JSON text \<^verbatim>\<open>null\<close>.\<close>

definition nullEnv :: env where
  "nullEnv =
     exampleEnv\<lparr> generateContent :=
       (\<lambda>req. Inr \<lparr> resp_text = Some ''null'', candidates = [] \<rparr>) \<rparr>"

text \<open>The answer to the prompts request has a video prompt and no edit prompt.\<close>

definition noEditPromptEnv :: env where
  "noEditPromptEnv =
     exampleEnv\<lparr> generateContent :=
       (\<lambda>req. Inr \<lparr> resp_text = Some videoPromptText, candidates = [] \<rparr>) \<rparr>"

text \<open>The edit model returns parts with no inline image.\<close>

definition noImageEnv :: env where
  "noImageEnv =
     exampleEnv\<lparr> generateContent :=
       (\<lambda>req. case gc_contents req of
                 ContentParts ps \<Rightarrow>
                   Inr \<lparr> resp_text = None,
                         candidates = [[Part None (Some (JStr ''I cannot.''))]] \<rparr>
               | ContentText t \<Rightarrow> generateContent exampleEnv req) \<rparr>"

text \<open>The submission of the video is rejected.\<close>

definition noVideoEnv :: env where
  "noVideoEnv = exampleEnv\<lparr> generateVideos := (\<lambda>req. Inl (Rejected ''quota'')) \<rparr>"

text \<open>The remote job never completes.\<close>

definition stuckEnv :: env where
  "stuckEnv = exampleEnv\<lparr> getVideosOperation := (\<lambda>n operation. Inr exampleOperation) \<rparr>"

section \<open>The effect combinators\<close>

lemma io_bind_call:
  "io_bind (call ev r) f =
     (case r of Inl e \<Rightarrow> ([ev], Threw e) | Inr a \<Rightarrow> (ev # fst (f a), snd (f a)))"
  by (simp add: io_bind_def call_def split: sum.splits prod.splits)

lemma io_bind_lift:
  "io_bind (lift r) f = (case r of Inl e \<Rightarrow> ([], Threw e) | Inr a \<Rightarrow> f a)"
  by (simp add: io_bind_def lift_def split: sum.splits prod.splits)

lemma io_bind_emit: "io_bind (emit ev) f = (ev # fst (f ()), snd (f ()))"
  by (simp add: io_bind_def emit_def split: prod.splits)

lemma io_bind_ret: "io_bind (ret a) f = f a"
  by (simp add: io_bind_def ret_def split: prod.splits)

lemma io_bind_throw: "io_bind (throw e) f = ([], Threw e)"
  by (simp add: io_bind_def throw_def)

lemma fst_io_bind:
  "fst (io_bind m f) = fst m @ (case snd m of Returned a \<Rightarrow> fst (f a) | _ \<Rightarrow> [])"
  by (cases m) (simp add: io_bind_def split: outcome.splits prod.splits)

lemma snd_io_bind:
  "snd (io_bind m f) =
     (case snd m of Returned a \<Rightarrow> snd (f a) | Threw e \<Rightarrow> Threw e | Pending \<Rightarrow> Pending)"
  by (cases m) (simp add: io_bind_def split: outcome.splits prod.splits)

lemma fst_try_catch:
  "fst (try_catch body label msg) =
     fst body @ (case snd body of Threw e \<Rightarrow> [ConsoleError label e] | _ \<Rightarrow> [])"
  by (cases body) (simp add: try_catch_def split: outcome.splits)

lemma snd_try_catch:
  "snd (try_catch body label msg) =
     (case snd body of Threw e \<Rightarrow> Threw (Error msg) | r \<Rightarrow> r)"
  by (cases body) (simp add: try_catch_def split: outcome.splits)

section \<open>The prompts request and its schema\<close>

lemma fst_getVideoGenerationPrompts:
  "fst (getVideoGenerationPrompts w script b) =
     [GenerateContentCall (videoPromptsRequest script b)]"
  by (simp add: getVideoGenerationPrompts_def io_bind_call lift_def split: sum.splits)

lemma snd_getVideoGenerationPrompts:
  "snd (getVideoGenerationPrompts w script b) =
     (case generateContent w (videoPromptsRequest script b) of
        Inl e \<Rightarrow> Threw e
      | Inr r \<Rightarrow> (case JSON_parse_text w (resp_text r) of
                     Inl e \<Rightarrow> Threw e | Inr j \<Rightarrow> Returned j))"
  by (simp add: getVideoGenerationPrompts_def io_bind_call lift_def split: sum.splits)

text \<open>
  C1, as the code has it. Every call of \<open>getVideoGenerationPrompts\<close> makes one call of the
  text model, whose request asks for the schema \<open>videoPromptsSchema needsEditPrompt\<close>.
  That schema lists \<^verbatim>\<open>videoPrompt\<close> as required and never lists \<^verbatim>\<open>keyframeEditPrompt\<close>
  as required; \<^verbatim>\<open>keyframeEditPrompt\<close> is one of its properties exactly when
  \<open>needsEditPrompt\<close> is true, and is mentioned anywhere in it exactly when
  \<open>needsEditPrompt\<close> is true.
\<close>

theorem prompts_schema_by_flag:
  "fst (getVideoGenerationPrompts w script needsEditPrompt) =
     [GenerateContentCall (videoPromptsRequest script needsEditPrompt)]
   \<and> requestedSchema (videoPromptsRequest script needsEditPrompt) =
       Some (videoPromptsSchema needsEditPrompt)
   \<and> required (videoPromptsSchema needsEditPrompt) = [''videoPrompt'']
   \<and> (''keyframeEditPrompt'' \<in> fst ` set (properties (videoPromptsSchema needsEditPrompt)))
       = needsEditPrompt
   \<and> (''keyframeEditPrompt'' \<in> set (schema_names (videoPromptsSchema needsEditPrompt)))
       = needsEditPrompt"
  by (cases needsEditPrompt)
     (simp_all add: fst_getVideoGenerationPrompts requestedSchema_def videoPromptsRequest_def
        videoPromptsSchema_def)

text \<open>
  C1, as stated, fails when the flag is true: the request for the edit branch does not
  list \<^verbatim>\<open>keyframeEditPrompt\<close> among the required fields.
\<close>

theorem edit_prompt_not_required:
  "\<not> (''keyframeEditPrompt''
         \<in> set (required (the (requestedSchema (videoPromptsRequest exampleScript True))))
       \<longleftrightarrow> True)"
  by (simp add: requestedSchema_def videoPromptsRequest_def videoPromptsSchema_def)

section \<open>The aspect ratio of the image synthesis\<close>

lemma validatedAspectRatio_valid: "validatedAspectRatio ar \<in> set validAspectRatios"
  by (simp add: validatedAspectRatio_def validAspectRatios_def)

lemma fst_generateInitialKeyframe:
  "fst (generateInitialKeyframe w s ar) =
     GenerateContentCall (keyframePromptRequest s ar) #
     (case generateContent w (keyframePromptRequest s ar) of
        Inl e \<Rightarrow> []
      | Inr r \<Rightarrow> (case resp_text r of
                     None \<Rightarrow> []
                   | Some t \<Rightarrow> [GenerateImagesCall (imagesRequest (trim t) ar)]))"
  by (simp add: generateInitialKeyframe_def io_bind_call io_bind_lift ret_def throw_def
           split: sum.splits option.splits list.splits)

text \<open>
  C5. Whatever aspect ratio \<open>generateInitialKeyframe\<close> is given, every call of the image
  synthesis it makes carries an aspect ratio of the allowed list: the given one when it
  is in the list, \<^verbatim>\<open>16:9\<close> otherwise. No value is rejected: once the text model has
  answered with a prompt, the image synthesis is called.
\<close>

theorem aspect_ratio_coerced:
  "(\<forall>req. GenerateImagesCall req \<in> set (fst (generateInitialKeyframe w s ar)) \<longrightarrow>
       gi_aspectRatio req \<in> set [''1:1'', ''3:4'', ''4:3'', ''9:16'', ''16:9'']
     \<and> gi_aspectRatio req =
         (if ar \<in> set [''1:1'', ''3:4'', ''4:3'', ''9:16'', ''16:9''] then ar else ''16:9''))
   \<and> (\<forall>r t. generateContent w (keyframePromptRequest s ar) = Inr r \<and> resp_text r = Some t \<longrightarrow>
         fst (generateInitialKeyframe w s ar) =
           [GenerateContentCall (keyframePromptRequest s ar),
            GenerateImagesCall (imagesRequest (trim t) ar)])"
proof -
  have ar: "gi_aspectRatio (imagesRequest p ar) =
              (if ar \<in> set [''1:1'', ''3:4'', ''4:3'', ''9:16'', ''16:9''] then ar else ''16:9'')"
    for p
    by (simp add: imagesRequest_def validatedAspectRatio_def validAspectRatios_def)
  have mem: "gi_aspectRatio (imagesRequest p ar) \<in> set [''1:1'', ''3:4'', ''4:3'', ''9:16'', ''16:9'']"
    for p
    using validatedAspectRatio_valid [of ar]
    by (simp add: imagesRequest_def validAspectRatios_def)
  show ?thesis
    unfolding fst_generateInitialKeyframe
    using ar mem by (auto split: sum.splits option.splits)
qed

theorem aspect_ratio_coerced_witness:
  "GenerateImagesCall (imagesRequest ''A robot at a stove.'' ''7:3'')
     \<in> set (fst (generateInitialKeyframe exampleEnv exampleScript ''7:3''))
   \<and> gi_aspectRatio (imagesRequest ''A robot at a stove.'' ''7:3'') = ''16:9''"
proof -
  have g: "generateContent exampleEnv (keyframePromptRequest exampleScript ''7:3'') =
             Inr \<lparr> resp_text = Some ''  A robot at a stove.  '', candidates = [] \<rparr>"
    by (simp add: exampleEnv_def keyframePromptRequest_def requestedSchema_def)
  have t: "trim ''  A robot at a stove.  '' = ''A robot at a stove.''"
    by code_simp
  have "fst (generateInitialKeyframe exampleEnv exampleScript ''7:3'') =
          [GenerateContentCall (keyframePromptRequest exampleScript ''7:3''),
           GenerateImagesCall (imagesRequest ''A robot at a stove.'' ''7:3'')]"
    using aspect_ratio_coerced [of exampleEnv exampleScript "''7:3''"] g t by simp
  then show ?thesis
    using aspect_ratio_coerced [of exampleEnv exampleScript "''7:3''"] by simp
qed

section \<open>The prompt of generateScripts\<close>

text \<open>
  C9. The prompt \<open>generateScripts\<close> builds, and with it the request it sends and the whole
  run, depends on the inspiration audio through its file name only: two briefs that
  differ in the audio, with the same file name or both without audio, give the same
  prompt and the same run. In particular the audio's bytes do not matter.
\<close>

theorem prompt_ignores_audio_bytes:
  "map_option name a1 = map_option name a2 \<Longrightarrow>
     scriptsPrompt (b\<lparr>inspirationAudio := a1\<rparr>) = scriptsPrompt (b\<lparr>inspirationAudio := a2\<rparr>)
   \<and> generateScripts w (b\<lparr>inspirationAudio := a1\<rparr>) =
       generateScripts w (b\<lparr>inspirationAudio := a2\<rparr>)
   \<and> scriptsPrompt (b\<lparr>inspirationAudio := Some (a\<lparr>base64 := x\<rparr>)\<rparr>) =
       scriptsPrompt (b\<lparr>inspirationAudio := Some (a\<lparr>base64 := y\<rparr>)\<rparr>)"
proof -
  assume h: "map_option name a1 = map_option name a2"
  have p: "scriptsPrompt (b\<lparr>inspirationAudio := a1\<rparr>) =
             scriptsPrompt (b\<lparr>inspirationAudio := a2\<rparr>)"
    using h by (cases a1; cases a2) (simp_all add: scriptsPrompt_def inspirationText_def)
  then have "scriptsRequest (b\<lparr>inspirationAudio := a1\<rparr>) =
               scriptsRequest (b\<lparr>inspirationAudio := a2\<rparr>)"
    by (simp add: scriptsRequest_def)
  then have g: "generateScripts w (b\<lparr>inspirationAudio := a1\<rparr>) =
                  generateScripts w (b\<lparr>inspirationAudio := a2\<rparr>)"
    by (simp add: generateScripts_def)
  have "scriptsPrompt (b\<lparr>inspirationAudio := Some (a\<lparr>base64 := x\<rparr>)\<rparr>) =
          scriptsPrompt (b\<lparr>inspirationAudio := Some (a\<lparr>base64 := y\<rparr>)\<rparr>)"
    by (simp add: scriptsPrompt_def inspirationText_def)
  with p g show ?thesis by simp
qed

theorem prompt_ignores_audio_bytes_witness:
  "map_option name (Some exampleAudio) = map_option name (Some (exampleAudio\<lparr>base64 := ''T0dH''\<rparr>))
   \<and> scriptsPrompt (exampleBrief\<lparr>inspirationAudio := Some exampleAudio\<rparr>) =
       scriptsPrompt (exampleBrief\<lparr>inspirationAudio := Some (exampleAudio\<lparr>base64 := ''T0dH''\<rparr>)\<rparr>)
   \<and> generateScripts exampleEnv (exampleBrief\<lparr>inspirationAudio := Some exampleAudio\<rparr>) =
       generateScripts exampleEnv
         (exampleBrief\<lparr>inspirationAudio := Some (exampleAudio\<lparr>base64 := ''T0dH''\<rparr>)\<rparr>)"
proof -
  have h: "map_option name (Some exampleAudio) =
             map_option name (Some (exampleAudio\<lparr>base64 := ''T0dH''\<rparr>))"
    by simp
  show ?thesis
    using h prompt_ignores_audio_bytes [OF h, of exampleBrief exampleEnv] by simp
qed

section \<open>The outcome of generateScripts\<close>

lemma io_bind_Returned: "io_bind (t, Returned a) f = (t @ fst (f a), snd (f a))"
  by (simp add: io_bind_def split: prod.splits)

lemma io_bind_Threw: "io_bind (t, Threw e) f = (t, Threw e)"
  by (simp add: io_bind_def)

lemma io_bind_Pending: "io_bind (t, Pending) f = (t, Pending)"
  by (simp add: io_bind_def)


lemma generateScripts_cases:
  "generateScripts w b =
     (case generateContent w (scriptsRequest b) of
        Inl e \<Rightarrow>
          ([GenerateContentCall (scriptsRequest b), ConsoleError ''Error generating scripts:'' e],
           Threw scriptGenerationFailed)
      | Inr r \<Rightarrow>
          (case JSON_parse_text w (resp_text r) of
             Inl e \<Rightarrow>
               ([GenerateContentCall (scriptsRequest b),
                 ConsoleError ''Error generating scripts:'' e],
                Threw scriptGenerationFailed)
           | Inr j \<Rightarrow>
               (case scripts_or_empty j of
                  Inl e \<Rightarrow>
                    ([GenerateContentCall (scriptsRequest b),
                      ConsoleError ''Error generating scripts:'' e],
                     Threw scriptGenerationFailed)
                | Inr v \<Rightarrow> ([GenerateContentCall (scriptsRequest b)], Returned v))))"
  by (simp add: generateScripts_def io_bind_call io_bind_lift lift_def try_catch_def
        io_bind_Returned io_bind_Threw split: sum.splits)

lemma scripts_or_empty_Inl: "(\<exists>e. scripts_or_empty j = Inl e) = (j = JNull)"
  by (cases j) (simp_all add: scripts_or_empty_def split: option.splits)

lemma scripts_or_empty_none:
  "get_prop j ''scripts'' = Inr None \<or> get_prop j ''scripts'' = Inr (Some (JArr [])) \<Longrightarrow>
     scripts_or_empty j = Inr (JArr [])"
  by (auto simp: scripts_or_empty_def)

text \<open>
  C6, as the code has it. \<open>generateScripts\<close> always settles. It throws exactly when the
  call of the text model fails, or the parse of its answer fails, or the answer parses
  to \<^verbatim>\<open>null\<close>, and what it throws is always the error with the message
  \<^verbatim>\<open>Failed to generate scripts from the idea.\<close> When the parsed answer has no
  \<^verbatim>\<open>scripts\<close> or an empty \<^verbatim>\<open>scripts\<close> array, it returns the empty array, makes no log
  entry and throws nothing.
\<close>

theorem scripts_failure_cases:
  "(\<exists>e. snd (generateScripts w b) = Threw e) =
     ((\<exists>e. generateContent w (scriptsRequest b) = Inl e)
      \<or> (\<exists>r. generateContent w (scriptsRequest b) = Inr r
              \<and> ((\<exists>e. JSON_parse_text w (resp_text r) = Inl e)
                 \<or> JSON_parse_text w (resp_text r) = Inr JNull)))
   \<and> (\<forall>e. snd (generateScripts w b) = Threw e \<longrightarrow> e = scriptGenerationFailed)
   \<and> snd (generateScripts w b) \<noteq> Pending
   \<and> (\<forall>r j. generateContent w (scriptsRequest b) = Inr r
            \<and> JSON_parse_text w (resp_text r) = Inr j
            \<and> (get_prop j ''scripts'' = Inr None \<or> get_prop j ''scripts'' = Inr (Some (JArr [])))
          \<longrightarrow> generateScripts w b = ([GenerateContentCall (scriptsRequest b)], Returned (JArr [])))"
proof -
  have a: "(\<exists>e. snd (generateScripts w b) = Threw e) =
     ((\<exists>e. generateContent w (scriptsRequest b) = Inl e)
      \<or> (\<exists>r. generateContent w (scriptsRequest b) = Inr r
              \<and> ((\<exists>e. JSON_parse_text w (resp_text r) = Inl e)
                 \<or> JSON_parse_text w (resp_text r) = Inr JNull)))"
  proof (cases "generateContent w (scriptsRequest b)")
    case (Inl e)
    then show ?thesis by (simp add: generateScripts_cases)
  next
    case (Inr r)
    show ?thesis
    proof (cases "JSON_parse_text w (resp_text r)")
      case (Inl e)
      with Inr show ?thesis by (simp add: generateScripts_cases)
    next
      case pj: (Inr j)
      show ?thesis
      proof (cases "scripts_or_empty j")
        case (Inl e)
        then have "j = JNull" using scripts_or_empty_Inl [of j] by blast
        with Inr pj Inl show ?thesis by (simp add: generateScripts_cases)
      next
        case sv: (Inr v)
        then have "j \<noteq> JNull" using scripts_or_empty_Inl [of j] by auto
        with Inr pj sv show ?thesis by (simp add: generateScripts_cases)
      qed
    qed
  qed
  have b: "\<forall>e. snd (generateScripts w b) = Threw e \<longrightarrow> e = scriptGenerationFailed"
    by (auto simp: generateScripts_cases split: sum.splits)
  have c: "snd (generateScripts w b) \<noteq> Pending"
    by (simp add: generateScripts_cases split: sum.splits)
  have d: "\<forall>r j. generateContent w (scriptsRequest b) = Inr r
            \<and> JSON_parse_text w (resp_text r) = Inr j
            \<and> (get_prop j ''scripts'' = Inr None \<or> get_prop j ''scripts'' = Inr (Some (JArr [])))
          \<longrightarrow> generateScripts w b = ([GenerateContentCall (scriptsRequest b)], Returned (JArr []))"
    using scripts_or_empty_none by (auto simp: generateScripts_cases)
  from a b c d show ?thesis by blast
qed

lemma exampleEnv_scripts:
  "generateContent exampleEnv (scriptsRequest exampleBrief) =
     Inr \<lparr> resp_text = Some ''{\"scripts\":[]}'', candidates = [] \<rparr>"
  by (simp add: exampleEnv_def scriptsRequest_def requestedSchema_def scriptsSchema_def
        videoPromptsSchema_def)

lemma exampleEnv_parse_scripts:
  "JSON_parse_text exampleEnv (Some ''{\"scripts\":[]}'') = Inr (JObj [(''scripts'', JArr [])])"
  by (simp add: JSON_parse_text_def exampleEnv_def editPromptsText_def videoPromptText_def)

theorem scripts_failure_cases_witness:
  "generateScripts exampleEnv exampleBrief =
     ([GenerateContentCall (scriptsRequest exampleBrief)], Returned (JArr []))
   \<and> \<not> (\<exists>e. snd (generateScripts exampleEnv exampleBrief) = Threw e)"
proof -
  have g: "get_prop (JObj [(''scripts'', JArr [])]) ''scripts'' = Inr (Some (JArr []))"
    by simp
  have "generateScripts exampleEnv exampleBrief =
          ([GenerateContentCall (scriptsRequest exampleBrief)], Returned (JArr []))"
    using scripts_failure_cases [of exampleEnv exampleBrief]
      exampleEnv_scripts exampleEnv_parse_scripts g
    by simp
  then show ?thesis by simp
qed

text \<open>
  C6, as stated, fails where the text model answers with the JSON text \<^verbatim>\<open>null\<close>: the
  call succeeds and the parse succeeds, and \<open>generateScripts\<close> throws all the same.
\<close>

theorem null_answer_throws:
  "generateContent nullEnv (scriptsRequest exampleBrief) =
     Inr \<lparr> resp_text = Some ''null'', candidates = [] \<rparr>
   \<and> JSON_parse_text nullEnv (Some ''null'') = Inr JNull
   \<and> snd (generateScripts nullEnv exampleBrief) = Threw scriptGenerationFailed"
proof -
  have g: "generateContent nullEnv (scriptsRequest exampleBrief) =
     Inr \<lparr> resp_text = Some ''null'', candidates = [] \<rparr>"
    by (simp add: nullEnv_def)
  have p: "JSON_parse_text nullEnv (Some ''null'') = Inr JNull"
    by (simp add: JSON_parse_text_def nullEnv_def exampleEnv_def editPromptsText_def
          videoPromptText_def)
  have "snd (generateScripts nullEnv exampleBrief) = Threw scriptGenerationFailed"
    by (simp add: generateScripts_cases g p scripts_or_empty_def)
  with g p show ?thesis by simp
qed

section \<open>The poll loop of generateVideo\<close>

lemma poll_loop_Returned:
  "snd (poll_loop w fuel n operation) = Returned operation' \<Longrightarrow>
     \<exists>k\<le>fuel. observed w n operation k = Inr operation' \<and> op_done operation'
       \<and> (\<forall>j<k. \<exists>oj. observed w n operation j = Inr oj \<and> \<not> op_done oj)"
proof (induction fuel arbitrary: n operation)
  case 0
  then have "op_done operation \<and> operation' = operation"
    by (simp add: ret_def split: if_splits)
  then show ?case by simp
next
  case (Suc fuel)
  show ?case
  proof (cases "op_done operation")
    case True
    with Suc.prems have "operation' = operation" by (simp add: ret_def)
    with True have "observed w n operation 0 = Inr operation' \<and> op_done operation'
       \<and> (\<forall>j<0. \<exists>oj. observed w n operation j = Inr oj \<and> \<not> op_done oj)"
      by simp
    then show ?thesis by blast
  next
    case False
    with Suc.prems obtain op1 where
      g: "getVideosOperation w n operation = Inr op1" and
      r: "snd (poll_loop w fuel (Suc n) op1) = Returned operation'"
      by (auto simp: io_bind_emit io_bind_call split: sum.splits)
    from Suc.IH [OF r] obtain k where
      k: "k \<le> fuel" "observed w (Suc n) op1 k = Inr operation'" "op_done operation'"
         "\<forall>j<k. \<exists>oj. observed w (Suc n) op1 j = Inr oj \<and> \<not> op_done oj"
      by blast
    have "\<exists>oj. observed w n operation j = Inr oj \<and> \<not> op_done oj" if "j < Suc k" for j
    proof (cases j)
      case 0
      with False show ?thesis by simp
    next
      case (Suc j')
      with that k(4) g show ?thesis by simp
    qed
    with k g have "Suc k \<le> Suc fuel \<and> observed w n operation (Suc k) = Inr operation'
        \<and> op_done operation'
        \<and> (\<forall>j<Suc k. \<exists>oj. observed w n operation j = Inr oj \<and> \<not> op_done oj)"
      by simp
    then show ?thesis by blast
  qed
qed

lemma poll_loop_waits: "waits_before_polls (fst (poll_loop w fuel n operation))"
proof (induction fuel arbitrary: n operation)
  case 0
  then show ?case by (simp add: ret_def)
next
  case (Suc fuel)
  then show ?case
    by (simp add: ret_def io_bind_emit io_bind_call split: sum.splits)
qed

lemma poll_loop_never_done:
  "\<forall>k. \<exists>ok. observed w n operation k = Inr ok \<and> \<not> op_done ok \<Longrightarrow>
     snd (poll_loop w fuel n operation) = Pending
   \<and> length (fst (poll_loop w fuel n operation)) = 2 * fuel"
proof (induction fuel arbitrary: n operation)
  case 0
  from "0.prems" [rule_format, of 0] show ?case by simp
next
  case (Suc fuel)
  from Suc.prems [rule_format, of 0] have nd: "\<not> op_done operation" by simp
  from Suc.prems [rule_format, of 1] obtain op1 where
    g: "getVideosOperation w n operation = Inr op1"
    by (auto split: sum.splits)
  have "\<forall>k. \<exists>ok. observed w (Suc n) op1 k = Inr ok \<and> \<not> op_done ok"
  proof
    fix k
    from Suc.prems [rule_format, of "Suc k"] g
    show "\<exists>ok. observed w (Suc n) op1 k = Inr ok \<and> \<not> op_done ok" by simp
  qed
  from Suc.IH [OF this] nd g show ?case
    by (simp add: io_bind_emit io_bind_call)
qed

lemma generateVideo_cases:
  "generateVideo w fuel p kf m =
     (case generateVideos w (videosRequest p kf m) of
        Inl e \<Rightarrow> ([GenerateVideosCall (videosRequest p kf m)], Threw e)
      | Inr op0 \<Rightarrow>
          (GenerateVideosCall (videosRequest p kf m) # fst (poll_loop w fuel 0 op0),
           (case snd (poll_loop w fuel 0 op0) of
              Returned operation \<Rightarrow>
                (case downloadLink operation of
                   None \<Rightarrow> Threw (Error ''Video generation did not produce a download link.'')
                 | Some l \<Rightarrow>
                     if l = []
                     then Threw (Error ''Video generation did not produce a download link.'')
                     else Returned l)
            | Threw e \<Rightarrow> Threw e
            | Pending \<Rightarrow> Pending)))"
proof (cases "generateVideos w (videosRequest p kf m)")
  case (Inl e)
  then show ?thesis by (simp add: generateVideo_def io_bind_call)
next
  case (Inr op0)
  have "fst (generateVideo w fuel p kf m) =
          GenerateVideosCall (videosRequest p kf m) # fst (poll_loop w fuel 0 op0)"
    using Inr
    by (simp add: generateVideo_def io_bind_call fst_io_bind ret_def throw_def
          split: outcome.splits option.splits)
  moreover have "snd (generateVideo w fuel p kf m) =
          (case snd (poll_loop w fuel 0 op0) of
              Returned operation \<Rightarrow>
                (case downloadLink operation of
                   None \<Rightarrow> Threw (Error ''Video generation did not produce a download link.'')
                 | Some l \<Rightarrow>
                     if l = []
                     then Threw (Error ''Video generation did not produce a download link.'')
                     else Returned l)
            | Threw e \<Rightarrow> Threw e
            | Pending \<Rightarrow> Pending)"
    using Inr
    by (simp add: generateVideo_def io_bind_call snd_io_bind ret_def throw_def
          split: outcome.splits option.splits)
  ultimately show ?thesis using Inr by (simp add: prod_eq_iff)
qed

text \<open>
  C2. When \<open>generateVideo\<close> returns a locator, the video was submitted, and for some \<open>k\<close>
  within the polls made the state observed after \<open>k\<close> polls has its completion flag
  set and gives that locator, every state observed before it having the flag unset.
  When the submitted operation never has the flag set, however many polls are made,
  \<open>generateVideo\<close> does not settle: whatever the number \<open>fuel\<close> of polls, the outcome is
  \<open>Pending\<close> and the run has made \<open>fuel\<close> polls. In every run, each poll comes right after
  a wait of 10000 milliseconds.
\<close>

theorem locator_only_when_done:
  "(\<forall>link. snd (generateVideo w fuel p kf m) = Returned link \<longrightarrow>
      (\<exists>op0 k opk. generateVideos w (videosRequest p kf m) = Inr op0
         \<and> k \<le> fuel \<and> observed w 0 op0 k = Inr opk \<and> op_done opk
         \<and> downloadLink opk = Some link
         \<and> (\<forall>j<k. \<exists>oj. observed w 0 op0 j = Inr oj \<and> \<not> op_done oj)))
   \<and> (\<forall>op0. generateVideos w (videosRequest p kf m) = Inr op0
         \<and> (\<forall>k. \<exists>ok. observed w 0 op0 k = Inr ok \<and> \<not> op_done ok) \<longrightarrow>
         snd (generateVideo w fuel p kf m) = Pending
       \<and> length (fst (generateVideo w fuel p kf m)) = 1 + 2 * fuel)
   \<and> (\<exists>t. fst (generateVideo w fuel p kf m) = GenerateVideosCall (videosRequest p kf m) # t
         \<and> waits_before_polls t)"
proof -
  have a: "\<exists>op0 k opk. generateVideos w (videosRequest p kf m) = Inr op0
         \<and> k \<le> fuel \<and> observed w 0 op0 k = Inr opk \<and> op_done opk
         \<and> downloadLink opk = Some link
         \<and> (\<forall>j<k. \<exists>oj. observed w 0 op0 j = Inr oj \<and> \<not> op_done oj)"
    if r: "snd (generateVideo w fuel p kf m) = Returned link" for link
  proof -
    from r obtain op0 opk where
      g: "generateVideos w (videosRequest p kf m) = Inr op0" and
      l: "snd (poll_loop w fuel 0 op0) = Returned opk" and
      d: "downloadLink opk = Some link"
      by (auto simp: generateVideo_cases split: sum.splits outcome.splits option.splits if_splits)
    from poll_loop_Returned [OF l] g d show ?thesis by blast
  qed
  have b: "snd (generateVideo w fuel p kf m) = Pending
       \<and> length (fst (generateVideo w fuel p kf m)) = 1 + 2 * fuel"
    if g: "generateVideos w (videosRequest p kf m) = Inr op0"
      and n: "\<forall>k. \<exists>ok. observed w 0 op0 k = Inr ok \<and> \<not> op_done ok" for op0
    using poll_loop_never_done [OF n, of fuel] g by (simp add: generateVideo_cases)
  have c: "\<exists>t. fst (generateVideo w fuel p kf m) = GenerateVideosCall (videosRequest p kf m) # t
         \<and> waits_before_polls t"
    using poll_loop_waits by (simp add: generateVideo_cases split: sum.splits)
  from a b c show ?thesis by blast
qed

lemma stuckEnv_observed: "observed stuckEnv n exampleOperation k = Inr exampleOperation"
  by (induction k arbitrary: n) (simp_all add: stuckEnv_def)

theorem locator_only_when_done_witness:
  "snd (generateVideo exampleEnv 5 (Some (JStr ''slow pan'')) ''UE5H'' ''image/png'') =
     Returned ''https://video.example/1?alt=media''
   \<and> (\<exists>k opk. k \<le> 5 \<and> observed exampleEnv 0 exampleOperation k = Inr opk \<and> op_done opk
         \<and> downloadLink opk = Some ''https://video.example/1?alt=media'')
   \<and> snd (generateVideo stuckEnv 7 (Some (JStr ''slow pan'')) ''UE5H'' ''image/png'') = Pending
   \<and> length (fst (generateVideo stuckEnv 7 (Some (JStr ''slow pan'')) ''UE5H'' ''image/png'')) = 15"
proof -
  have g: "generateVideos exampleEnv v = Inr exampleOperation" for v
    by (simp add: exampleEnv_def)
  have p0: "getVideosOperation exampleEnv 0 operation = Inr operation" for operation
    by (simp add: exampleEnv_def)
  have p1: "getVideosOperation exampleEnv (Suc 0) operation =
      Inr (operation\<lparr> op_done := True,
                      op_response := Some [Some ''https://video.example/1?alt=media''] \<rparr>)"
    for operation
    by (simp add: exampleEnv_def)
  have l: "poll_loop exampleEnv 5 0 exampleOperation =
      ([SetTimeout 10000, GetVideosOperationCall exampleOperation,
        SetTimeout 10000, GetVideosOperationCall exampleOperation],
       Returned (exampleOperation\<lparr> op_done := True,
                      op_response := Some [Some ''https://video.example/1?alt=media''] \<rparr>))"
    by (simp add: numeral_nat io_bind_emit io_bind_call p0 p1 exampleOperation_def ret_def)
  have r: "snd (generateVideo exampleEnv 5 (Some (JStr ''slow pan'')) ''UE5H'' ''image/png'') =
     Returned ''https://video.example/1?alt=media''"
    by (simp add: generateVideo_cases g l downloadLink_def)
  have s: "generateVideos stuckEnv v = Inr exampleOperation" for v
    by (simp add: stuckEnv_def exampleEnv_def)
  have "\<not> op_done exampleOperation"
    by (simp add: exampleOperation_def)
  then have n: "\<forall>k. \<exists>ok. observed stuckEnv 0 exampleOperation k = Inr ok \<and> \<not> op_done ok"
    by (simp add: stuckEnv_observed)
  from locator_only_when_done
         [of exampleEnv 5 "Some (JStr ''slow pan'')" "''UE5H''" "''image/png''"] r g
  have e: "\<exists>k opk. k \<le> 5 \<and> observed exampleEnv 0 exampleOperation k = Inr opk \<and> op_done opk
         \<and> downloadLink opk = Some ''https://video.example/1?alt=media''"
    by auto
  from locator_only_when_done
         [of stuckEnv 7 "Some (JStr ''slow pan'')" "''UE5H''" "''image/png''"] s n
  have "snd (generateVideo stuckEnv 7 (Some (JStr ''slow pan'')) ''UE5H'' ''image/png'') = Pending
   \<and> length (fst (generateVideo stuckEnv 7 (Some (JStr ''slow pan'')) ''UE5H'' ''image/png'')) = 15"
    by simp
  with r e show ?thesis by simp
qed

section \<open>The stages of generateVideoFromScript\<close>

lemma get_prop_Inr_iff: "(\<exists>v. get_prop j k = Inr v) = (j \<noteq> JNull)"
  by (cases j) simp_all

lemma fst_generateKeyframeWithEdit:
  "fst (generateKeyframeWithEdit w img p) = [GenerateContentCall (editRequest img p)]"
  by (simp add: generateKeyframeWithEdit_def io_bind_call io_bind_lift ret_def throw_def
           split: sum.splits list.splits option.splits)

lemma snd_generateKeyframeWithEdit:
  "snd (generateKeyframeWithEdit w img p) =
     (case generateContent w (editRequest img p) of
        Inl e \<Rightarrow> Threw e
      | Inr r \<Rightarrow>
          (case candidates r of
             [] \<Rightarrow> Threw TypeError
           | ps # _ \<Rightarrow>
               (case firstInlineData ps of
                  None \<Rightarrow> Threw (Error ''Nano Banana model did not return an image.'')
                | Some d \<Rightarrow> Returned d)))"
  by (simp add: generateKeyframeWithEdit_def io_bind_call io_bind_lift ret_def throw_def
           split: sum.splits list.splits option.splits)

lemma snd_generateInitialKeyframe:
  "snd (generateInitialKeyframe w s ar) =
     (case generateContent w (keyframePromptRequest s ar) of
        Inl e \<Rightarrow> Threw e
      | Inr r \<Rightarrow>
          (case resp_text r of
             None \<Rightarrow> Threw TypeError
           | Some t \<Rightarrow>
               (case generateImages w (imagesRequest (trim t) ar) of
                  Inl e \<Rightarrow> Threw e
                | Inr ir \<Rightarrow>
                    (case generatedImages ir of
                       None \<Rightarrow> Threw (Error ''Imagen model did not return an image.'')
                     | Some [] \<Rightarrow> Threw (Error ''Imagen model did not return an image.'')
                     | Some (None # _) \<Rightarrow> Threw TypeError
                     | Some (Some img # _) \<Rightarrow>
                         Returned \<lparr> kf_base64 = imageBytes img, kf_mimeType = ''image/png'' \<rparr>))))"
  by (simp add: generateInitialKeyframe_def io_bind_call io_bind_lift ret_def throw_def
           split: sum.splits list.splits option.splits)

lemma fst_keyframeStage_edit:
  "length (inspirationImages b) > 0 \<Longrightarrow>
   fst (keyframeStage w s b) =
     msgDevelopingPrompts # GenerateContentCall (videoPromptsRequest s True) #
     (case snd (getVideoGenerationPrompts w s True) of
        Returned prompts \<Rightarrow>
          (case get_prop prompts ''videoPrompt'' of
             Inl e \<Rightarrow> []
           | Inr vp \<Rightarrow>
               msgEditingImage #
               (case get_prop prompts ''keyframeEditPrompt'' of
                  Inl e \<Rightarrow> []
                | Inr kep \<Rightarrow>
                    if truthy kep
                    then [GenerateContentCall (editRequest (inspirationImages b ! 0) kep)]
                    else []))
      | _ \<Rightarrow> [])"
  by (simp add: keyframeStage_def Let_def io_bind_emit io_bind_lift fst_io_bind
        fst_getVideoGenerationPrompts fst_generateKeyframeWithEdit ret_def throw_def
        split: outcome.splits sum.splits)

lemma snd_keyframeStage_edit:
  "length (inspirationImages b) > 0 \<Longrightarrow>
   snd (keyframeStage w s b) =
     (case snd (getVideoGenerationPrompts w s True) of
        Returned prompts \<Rightarrow>
          (case get_prop prompts ''videoPrompt'' of
             Inl e \<Rightarrow> Threw e
           | Inr vp \<Rightarrow>
               (case get_prop prompts ''keyframeEditPrompt'' of
                  Inl e \<Rightarrow> Threw e
                | Inr kep \<Rightarrow>
                    if truthy kep
                    then (case snd (generateKeyframeWithEdit w (inspirationImages b ! 0) kep) of
                            Returned d \<Rightarrow>
                              Returned (d, mimeType (inspirationImages b ! 0), vp)
                          | Threw e \<Rightarrow> Threw e
                          | Pending \<Rightarrow> Pending)
                    else Threw editPromptMissing))
      | Threw e \<Rightarrow> Threw e
      | Pending \<Rightarrow> Pending)"
  by (simp add: keyframeStage_def Let_def io_bind_emit io_bind_lift snd_io_bind
        ret_def throw_def split: outcome.splits sum.splits)

lemma fst_keyframeStage_synthesis:
  "inspirationImages b = [] \<Longrightarrow>
   fst (keyframeStage w s b) =
     msgGeneratingKeyframe # fst (generateInitialKeyframe w s (aspectRatio b)) @
     (case snd (generateInitialKeyframe w s (aspectRatio b)) of
        Returned kf \<Rightarrow>
          [UpdateLoadingMessage ''Developing a video prompt from your script...'',
           GenerateContentCall (videoPromptsRequest s False)]
      | _ \<Rightarrow> [])"
  by (simp add: keyframeStage_def io_bind_emit io_bind_lift fst_io_bind
        fst_getVideoGenerationPrompts ret_def
        split: outcome.splits sum.splits)

lemma snd_keyframeStage_synthesis:
  "inspirationImages b = [] \<Longrightarrow>
   snd (keyframeStage w s b) =
     (case snd (generateInitialKeyframe w s (aspectRatio b)) of
        Returned kf \<Rightarrow>
          (case snd (getVideoGenerationPrompts w s False) of
             Returned prompts \<Rightarrow>
               (case get_prop prompts ''videoPrompt'' of
                  Inl e \<Rightarrow> Threw e
                | Inr vp \<Rightarrow> Returned (kf_base64 kf, kf_mimeType kf, vp))
           | Threw e \<Rightarrow> Threw e
           | Pending \<Rightarrow> Pending)
      | Threw e \<Rightarrow> Threw e
      | Pending \<Rightarrow> Pending)"
  by (simp add: keyframeStage_def io_bind_emit io_bind_lift snd_io_bind ret_def
        split: outcome.splits sum.splits)

lemma fst_videoStage:
  "fst (videoStage w fuel (kb, km, vp)) =
     UpdateLoadingMessage ''Generating video with VEO 2.0 (this may take several minutes)...'' #
     fst (generateVideo w fuel vp kb km) @
     (case snd (generateVideo w fuel vp kb km) of
        Returned url \<Rightarrow>
          [UpdateLoadingMessage ''Downloading generated video...'',
           FetchCall (url @ ''&key='' @ API_KEY w)]
      | _ \<Rightarrow> [])"
  by (simp add: videoStage_def io_bind_emit io_bind_call io_bind_lift fst_io_bind
        ret_def throw_def split: outcome.splits sum.splits)

lemma snd_videoStage:
  "snd (videoStage w fuel (kb, km, vp)) =
     (case snd (generateVideo w fuel vp kb km) of
        Returned url \<Rightarrow>
          (case fetch w (url @ ''&key='' @ API_KEY w) of
             Inl e \<Rightarrow> Threw e
           | Inr r \<Rightarrow>
               if ok r
               then (case blob r of
                       Inl e \<Rightarrow> Threw e
                     | Inr bl \<Rightarrow>
                         Returned \<lparr> videoUrl = createObjectURL w bl,
                                    keyframeUrl = ''data:'' @ km @ '';base64,'' @ kb \<rparr>)
               else Threw (Error (''Failed to download video: '' @ statusText r)))
      | Threw e \<Rightarrow> Threw e
      | Pending \<Rightarrow> Pending)"
  by (simp add: videoStage_def io_bind_emit io_bind_call io_bind_lift snd_io_bind
        ret_def throw_def split: outcome.splits sum.splits)

lemma fst_generateVideoFromScript:
  "fst (generateVideoFromScript w fuel s b) =
     fst (keyframeStage w s b) @
     (case snd (keyframeStage w s b) of
        Returned k \<Rightarrow>
          fst (videoStage w fuel k) @
          (case snd (videoStage w fuel k) of
             Threw e \<Rightarrow> [ConsoleError ''Error in video generation pipeline:'' e]
           | _ \<Rightarrow> [])
      | Threw e \<Rightarrow> [ConsoleError ''Error in video generation pipeline:'' e]
      | Pending \<Rightarrow> [])"
  by (simp add: generateVideoFromScript_def fst_try_catch fst_io_bind snd_io_bind
        split: outcome.splits)

lemma snd_generateVideoFromScript:
  "snd (generateVideoFromScript w fuel s b) =
     (case snd (keyframeStage w s b) of
        Returned k \<Rightarrow>
          (case snd (videoStage w fuel k) of
             Threw e \<Rightarrow> Threw pipelineFailed
           | r \<Rightarrow> r)
      | Threw e \<Rightarrow> Threw pipelineFailed
      | Pending \<Rightarrow> Pending)"
  by (simp add: generateVideoFromScript_def snd_try_catch snd_io_bind
        split: outcome.splits)

section \<open>The events of a run\<close>

lemma poll_loop_events:
  "e \<in> set (fst (poll_loop w fuel n operation)) \<Longrightarrow>
     (\<exists>ms. e = SetTimeout ms) \<or> (\<exists>operation'. e = GetVideosOperationCall operation')"
proof (induction fuel arbitrary: n operation)
  case 0
  then show ?case by (simp add: ret_def split: if_splits)
next
  case (Suc fuel)
  then show ?case
    by (auto simp: ret_def io_bind_emit io_bind_call split: if_splits sum.splits)
qed

lemma generateVideo_events:
  "e \<in> set (fst (generateVideo w fuel vp kb km)) \<Longrightarrow>
     (\<exists>r. e = GenerateVideosCall r) \<or> (\<exists>ms. e = SetTimeout ms)
     \<or> (\<exists>operation'. e = GetVideosOperationCall operation')"
  by (auto simp: generateVideo_cases split: sum.splits dest: poll_loop_events)

lemma videoStage_no_content_call: "GenerateContentCall req \<notin> set (fst (videoStage w fuel k))"
proof (cases k)
  case (fields kb km vp)
  show ?thesis
    using generateVideo_events [of "GenerateContentCall req" w fuel vp kb km]
    by (auto simp: fields fst_videoStage split: outcome.splits)
qed

lemma videoStage_no_images_call: "GenerateImagesCall req \<notin> set (fst (videoStage w fuel k))"
proof (cases k)
  case (fields kb km vp)
  show ?thesis
    using generateVideo_events [of "GenerateImagesCall req" w fuel vp kb km]
    by (auto simp: fields fst_videoStage split: outcome.splits)
qed

lemma content_calls_of_run:
  "GenerateContentCall req \<in> set (fst (generateVideoFromScript w fuel s b)) \<Longrightarrow>
     GenerateContentCall req \<in> set (fst (keyframeStage w s b))"
  using videoStage_no_content_call
  by (auto simp: fst_generateVideoFromScript split: outcome.splits)

lemma images_calls_of_run:
  "GenerateImagesCall req \<in> set (fst (generateVideoFromScript w fuel s b)) \<Longrightarrow>
     GenerateImagesCall req \<in> set (fst (keyframeStage w s b))"
  using videoStage_no_images_call
  by (auto simp: fst_generateVideoFromScript split: outcome.splits)

lemma edit_branch_content_calls:
  "length (inspirationImages b) > 0 \<Longrightarrow>
   GenerateContentCall req \<in> set (fst (generateVideoFromScript w fuel s b)) \<Longrightarrow>
     req = videoPromptsRequest s True
     \<or> (\<exists>kep. truthy kep \<and> req = editRequest (inspirationImages b ! 0) kep)"
  by (drule content_calls_of_run)
     (auto simp: fst_keyframeStage_edit split: outcome.splits sum.splits if_splits)

lemma edit_branch_no_images_call:
  "length (inspirationImages b) > 0 \<Longrightarrow>
   GenerateImagesCall req \<notin> set (fst (generateVideoFromScript w fuel s b))"
  using images_calls_of_run [of req w fuel s b]
  by (auto simp: fst_keyframeStage_edit split: outcome.splits sum.splits if_splits)

lemma synthesis_branch_content_calls:
  "inspirationImages b = [] \<Longrightarrow>
   GenerateContentCall req \<in> set (fst (generateVideoFromScript w fuel s b)) \<Longrightarrow>
     req = keyframePromptRequest s (aspectRatio b) \<or> req = videoPromptsRequest s False"
  by (drule content_calls_of_run)
     (auto simp: fst_keyframeStage_synthesis fst_generateInitialKeyframe
           split: outcome.splits sum.splits option.splits)

section \<open>The edit prompt\<close>

lemma edit_branch_missing_prompt:
  assumes "length (inspirationImages b) > 0"
    and "snd (getVideoGenerationPrompts w s True) = Returned prompts"
    and "get_prop prompts ''keyframeEditPrompt'' = Inr kep"
    and "\<not> truthy kep"
  shows "generateVideoFromScript w fuel s b =
           ([msgDevelopingPrompts, GenerateContentCall (videoPromptsRequest s True),
             msgEditingImage,
             ConsoleError ''Error in video generation pipeline:'' editPromptMissing],
            Threw pipelineFailed)"
proof -
  from assms(3) have "prompts \<noteq> JNull" using get_prop_Inr_iff by blast
  then obtain vp where vp: "get_prop prompts ''videoPrompt'' = Inr vp"
    using get_prop_Inr_iff by blast
  have f: "fst (keyframeStage w s b) =
             [msgDevelopingPrompts, GenerateContentCall (videoPromptsRequest s True),
              msgEditingImage]"
    using assms vp by (simp add: fst_keyframeStage_edit)
  have t: "snd (keyframeStage w s b) = Threw editPromptMissing"
    using assms vp by (simp add: snd_keyframeStage_edit)
  show ?thesis
    using f t
    by (simp add: prod_eq_iff fst_generateVideoFromScript snd_generateVideoFromScript)
qed

lemma edit_branch_present_prompt:
  assumes "length (inspirationImages b) > 0"
    and "snd (getVideoGenerationPrompts w s True) = Returned prompts"
    and "get_prop prompts ''keyframeEditPrompt'' = Inr kep"
    and "truthy kep"
  shows "\<exists>rest. fst (generateVideoFromScript w fuel s b) =
           [msgDevelopingPrompts, GenerateContentCall (videoPromptsRequest s True),
            msgEditingImage,
            GenerateContentCall (editRequest (inspirationImages b ! 0) kep)] @ rest"
proof -
  from assms(3) have "prompts \<noteq> JNull" using get_prop_Inr_iff by blast
  then obtain vp where vp: "get_prop prompts ''videoPrompt'' = Inr vp"
    using get_prop_Inr_iff by blast
  have f: "fst (keyframeStage w s b) =
             [msgDevelopingPrompts, GenerateContentCall (videoPromptsRequest s True),
              msgEditingImage,
              GenerateContentCall (editRequest (inspirationImages b ! 0) kep)]"
    using assms vp by (simp add: fst_keyframeStage_edit)
  show ?thesis
    unfolding fst_generateVideoFromScript f by simp
qed

text \<open>
  C4. On the edit branch, when the derived prompts have no \<^verbatim>\<open>keyframeEditPrompt\<close> or an
  empty one (or any other value that \<^verbatim>\<open>!\<close> takes for false), the pipeline fails, and the
  only call of the content model in the run is the one that asked for the prompts: no
  image edit is called. In every run of the edit branch, a call of the content model
  that carries parts is the edit of the first inspiration image with an edit prompt that
  is present and is not the empty string.
\<close>

theorem edit_prompt_required:
  "length (inspirationImages b) > 0 \<Longrightarrow>
     (\<forall>prompts kep.
         snd (getVideoGenerationPrompts w s True) = Returned prompts
         \<and> get_prop prompts ''keyframeEditPrompt'' = Inr kep
         \<and> (kep = None \<or> kep = Some (JStr []) \<or> \<not> truthy kep) \<longrightarrow>
           snd (generateVideoFromScript w fuel s b) = Threw pipelineFailed
         \<and> (\<forall>req. GenerateContentCall req \<in> set (fst (generateVideoFromScript w fuel s b)) \<longrightarrow>
               req = videoPromptsRequest s True))
   \<and> (\<forall>req ps.
         GenerateContentCall req \<in> set (fst (generateVideoFromScript w fuel s b))
         \<and> gc_contents req = ContentParts ps \<longrightarrow>
           (\<exists>kep. req = editRequest (inspirationImages b ! 0) kep
                 \<and> truthy kep \<and> kep \<noteq> None \<and> kep \<noteq> Some (JStr [])))"
proof -
  assume e: "length (inspirationImages b) > 0"
  have a: "snd (generateVideoFromScript w fuel s b) = Threw pipelineFailed
         \<and> (\<forall>req. GenerateContentCall req \<in> set (fst (generateVideoFromScript w fuel s b)) \<longrightarrow>
               req = videoPromptsRequest s True)"
    if p: "snd (getVideoGenerationPrompts w s True) = Returned prompts"
      and k: "get_prop prompts ''keyframeEditPrompt'' = Inr kep"
      and n: "kep = None \<or> kep = Some (JStr []) \<or> \<not> truthy kep"
    for prompts kep
  proof -
    from n have "\<not> truthy kep" by auto
    from edit_branch_missing_prompt [OF e p k this, of fuel] show ?thesis by simp
  qed
  have c: "\<exists>kep. req = editRequest (inspirationImages b ! 0) kep
                 \<and> truthy kep \<and> kep \<noteq> None \<and> kep \<noteq> Some (JStr [])"
    if m: "GenerateContentCall req \<in> set (fst (generateVideoFromScript w fuel s b))"
      and ps: "gc_contents req = ContentParts ps"
    for req ps
  proof -
    from edit_branch_content_calls [OF e m] ps
    obtain kep where "truthy kep" "req = editRequest (inspirationImages b ! 0) kep"
      by (auto simp: videoPromptsRequest_def)
    moreover from \<open>truthy kep\<close> have "kep \<noteq> None" by (cases kep) simp_all
    moreover from \<open>truthy kep\<close> have "kep \<noteq> Some (JStr [])" by (cases kep) auto
    ultimately show ?thesis by blast
  qed
  from a c show ?thesis by blast
qed

lemma noEditPromptEnv_prompts:
  "snd (getVideoGenerationPrompts noEditPromptEnv exampleScript True) =
     Returned (JObj [(''videoPrompt'', JStr ''slow pan'')])"
  by (simp add: snd_getVideoGenerationPrompts noEditPromptEnv_def exampleEnv_def
        JSON_parse_text_def editPromptsText_def videoPromptText_def)

lemma exampleEditBrief_images: "inspirationImages exampleEditBrief = [exampleImage]"
  by (simp add: exampleEditBrief_def)

theorem edit_prompt_required_witness:
  "snd (getVideoGenerationPrompts noEditPromptEnv exampleScript True) =
     Returned (JObj [(''videoPrompt'', JStr ''slow pan'')])
   \<and> get_prop (JObj [(''videoPrompt'', JStr ''slow pan'')]) ''keyframeEditPrompt'' = Inr None
   \<and> snd (generateVideoFromScript noEditPromptEnv 5 exampleScript exampleEditBrief) =
       Threw pipelineFailed
   \<and> GenerateContentCall (editRequest exampleImage None)
       \<notin> set (fst (generateVideoFromScript noEditPromptEnv 5 exampleScript exampleEditBrief))"
proof -
  have e: "length (inspirationImages exampleEditBrief) > 0"
    by (simp add: exampleEditBrief_images)
  have g: "get_prop (JObj [(''videoPrompt'', JStr ''slow pan'')]) ''keyframeEditPrompt'' = Inr None"
    by simp
  have c: "gc_contents (editRequest exampleImage None) =
             ContentParts [Part (Some \<lparr> data = base64 exampleImage,
                                        blob_mimeType = mimeType exampleImage \<rparr>) None,
                           Part None None]"
    by (simp add: editRequest_def)
  have n: "editRequest exampleImage None \<noteq> videoPromptsRequest exampleScript True"
    by (simp add: editRequest_def videoPromptsRequest_def)
  show ?thesis
    using edit_prompt_required [OF e, of noEditPromptEnv exampleScript 5]
      noEditPromptEnv_prompts g n
    by auto
qed

text \<open>
  C10, as the code has it. On a run of the edit branch that has derived the prompts and
  comes to the check of \<^verbatim>\<open>keyframeEditPrompt\<close> (the prompts call has returned and its
  answer is not \<^verbatim>\<open>null\<close>), the message \<^verbatim>\<open>Editing inspiration image to create a keyframe...\<close>
  has been reported before the check has any effect. When the check fails, the whole run
  is: the first message, the request for the prompts, that message, the log of the
  missing prompt; and it throws the pipeline's error. When the check passes, the call of
  the image edit comes right after that message.
\<close>

theorem editing_reported_before_check:
  "length (inspirationImages b) > 0 \<Longrightarrow>
   snd (getVideoGenerationPrompts w s True) = Returned prompts \<Longrightarrow>
   get_prop prompts ''keyframeEditPrompt'' = Inr kep \<Longrightarrow>
     (\<not> truthy kep \<longrightarrow>
        generateVideoFromScript w fuel s b =
          ([msgDevelopingPrompts, GenerateContentCall (videoPromptsRequest s True),
            msgEditingImage,
            ConsoleError ''Error in video generation pipeline:'' editPromptMissing],
           Threw pipelineFailed))
   \<and> (truthy kep \<longrightarrow>
        (\<exists>rest. fst (generateVideoFromScript w fuel s b) =
           [msgDevelopingPrompts, GenerateContentCall (videoPromptsRequest s True),
            msgEditingImage,
            GenerateContentCall (editRequest (inspirationImages b ! 0) kep)] @ rest))"
  using edit_branch_missing_prompt [of b w s prompts kep fuel]
        edit_branch_present_prompt [of b w s prompts kep fuel]
  by blast

theorem editing_reported_before_check_witness:
  "generateVideoFromScript noEditPromptEnv 5 exampleScript exampleEditBrief =
     ([msgDevelopingPrompts, GenerateContentCall (videoPromptsRequest exampleScript True),
       msgEditingImage,
       ConsoleError ''Error in video generation pipeline:'' editPromptMissing],
      Threw pipelineFailed)"
proof -
  have e: "length (inspirationImages exampleEditBrief) > 0"
    by (simp add: exampleEditBrief_images)
  have g: "get_prop (JObj [(''videoPrompt'', JStr ''slow pan'')]) ''keyframeEditPrompt'' = Inr None"
    by simp
  show ?thesis
    using editing_reported_before_check [OF e noEditPromptEnv_prompts g, of 5] by simp
qed

text \<open>
  C10, as stated of every run of the edit branch, fails where the text model answers the
  request for the prompts with the JSON text \<^verbatim>\<open>null\<close>: reading \<^verbatim>\<open>videoPrompt\<close> of it
  throws before the message, and the run ends without having reported the editing.
\<close>

theorem null_prompts_skip_editing_message:
  "length (inspirationImages exampleEditBrief) > 0
   \<and> generateVideoFromScript nullEnv 5 exampleScript exampleEditBrief =
       ([msgDevelopingPrompts, GenerateContentCall (videoPromptsRequest exampleScript True),
         ConsoleError ''Error in video generation pipeline:'' TypeError],
        Threw pipelineFailed)
   \<and> msgEditingImage
       \<notin> set (fst (generateVideoFromScript nullEnv 5 exampleScript exampleEditBrief))"
proof -
  have e: "length (inspirationImages exampleEditBrief) > 0"
    by (simp add: exampleEditBrief_images)
  have p: "snd (getVideoGenerationPrompts nullEnv exampleScript True) = Returned JNull"
    by (simp add: snd_getVideoGenerationPrompts nullEnv_def exampleEnv_def
          JSON_parse_text_def editPromptsText_def videoPromptText_def)
  have f: "fst (keyframeStage nullEnv exampleScript exampleEditBrief) =
             [msgDevelopingPrompts, GenerateContentCall (videoPromptsRequest exampleScript True)]"
    using e p by (simp add: fst_keyframeStage_edit)
  have t: "snd (keyframeStage nullEnv exampleScript exampleEditBrief) = Threw TypeError"
    using e p by (simp add: snd_keyframeStage_edit)
  have r: "generateVideoFromScript nullEnv 5 exampleScript exampleEditBrief =
       ([msgDevelopingPrompts, GenerateContentCall (videoPromptsRequest exampleScript True),
         ConsoleError ''Error in video generation pipeline:'' TypeError],
        Threw pipelineFailed)"
    using f t
    by (simp add: prod_eq_iff fst_generateVideoFromScript snd_generateVideoFromScript)
  from e r show ?thesis by simp
qed

section \<open>The keyframe of the result\<close>

lemma firstInlineData_ignores_media_type:
  "firstInlineData
     (map (\<lambda>p. Part (map_option (\<lambda>bl. bl\<lparr>blob_mimeType := f bl\<rparr>) (inlineData p)) (part_text p)) ps)
   = firstInlineData ps"
  by (induction ps) (simp_all split: option.splits)

text \<open>
  C8. In the result of a successful run, the keyframe is a data URL. On the synthesis
  path its media type is \<^verbatim>\<open>image/png\<close> and its bytes are those of the synthesized
  keyframe. On the edit path its media type is the one of the first inspiration image,
  and its bytes are the data of the first inline part the edit model returned; the
  media type the edit model gave that part is not read.
\<close>

theorem keyframe_media_type:
  "snd (generateVideoFromScript w fuel s b) = Returned r \<Longrightarrow>
     (inspirationImages b = [] \<longrightarrow>
        (\<exists>kf. snd (generateInitialKeyframe w s (aspectRatio b)) = Returned kf
             \<and> keyframeUrl r = ''data:image/png;base64,'' @ kf_base64 kf))
   \<and> (length (inspirationImages b) > 0 \<longrightarrow>
        (\<exists>kep resp ps rest d.
            generateContent w (editRequest (inspirationImages b ! 0) kep) = Inr resp
          \<and> candidates resp = ps # rest
          \<and> firstInlineData ps = Some d
          \<and> (\<forall>f. firstInlineData
                    (map (\<lambda>p. Part (map_option (\<lambda>bl. bl\<lparr>blob_mimeType := f bl\<rparr>) (inlineData p))
                                    (part_text p)) ps) = Some d)
          \<and> keyframeUrl r =
              ''data:'' @ mimeType (inspirationImages b ! 0) @ '';base64,'' @ d))"
proof -
  assume r: "snd (generateVideoFromScript w fuel s b) = Returned r"
  then obtain kb km vp where
    k: "snd (keyframeStage w s b) = Returned (kb, km, vp)" and
    v: "snd (videoStage w fuel (kb, km, vp)) = Returned r"
    by (auto simp: snd_generateVideoFromScript split: outcome.splits)
  from v have u: "keyframeUrl r = ''data:'' @ km @ '';base64,'' @ kb"
    by (auto simp: snd_videoStage split: outcome.splits sum.splits if_splits)
  have a: "\<exists>kf. snd (generateInitialKeyframe w s (aspectRatio b)) = Returned kf
             \<and> keyframeUrl r = ''data:image/png;base64,'' @ kf_base64 kf"
    if n: "inspirationImages b = []"
  proof -
    from k n obtain kf where
      g: "snd (generateInitialKeyframe w s (aspectRatio b)) = Returned kf" and
      e: "kb = kf_base64 kf" "km = kf_mimeType kf"
      by (auto simp: snd_keyframeStage_synthesis split: outcome.splits sum.splits)
    from g have "kf_mimeType kf = ''image/png''"
      by (auto simp: snd_generateInitialKeyframe split: sum.splits option.splits list.splits)
    with g e u show ?thesis by simp
  qed
  have c: "\<exists>kep resp ps rest d.
            generateContent w (editRequest (inspirationImages b ! 0) kep) = Inr resp
          \<and> candidates resp = ps # rest
          \<and> firstInlineData ps = Some d
          \<and> (\<forall>f. firstInlineData
                    (map (\<lambda>p. Part (map_option (\<lambda>bl. bl\<lparr>blob_mimeType := f bl\<rparr>) (inlineData p))
                                    (part_text p)) ps) = Some d)
          \<and> keyframeUrl r =
              ''data:'' @ mimeType (inspirationImages b ! 0) @ '';base64,'' @ d"
    if e: "length (inspirationImages b) > 0"
  proof -
    from k e obtain kep where
      g: "snd (generateKeyframeWithEdit w (inspirationImages b ! 0) kep) = Returned kb" and
      m: "km = mimeType (inspirationImages b ! 0)"
      by (auto simp: snd_keyframeStage_edit split: outcome.splits sum.splits if_splits)
    from g obtain resp ps rest where
      "generateContent w (editRequest (inspirationImages b ! 0) kep) = Inr resp"
      "candidates resp = ps # rest" "firstInlineData ps = Some kb"
      by (auto simp: snd_generateKeyframeWithEdit split: sum.splits list.splits option.splits)
    with m u firstInlineData_ignores_media_type show ?thesis by auto
  qed
  from a c show ?thesis by blast
qed

lemma exampleEnv_prompts_True:
  "snd (getVideoGenerationPrompts exampleEnv exampleScript True) =
     Returned (JObj [(''videoPrompt'', JStr ''slow pan''),
                     (''keyframeEditPrompt'', JStr ''add a chef hat'')])"
  by (simp add: snd_getVideoGenerationPrompts exampleEnv_def videoPromptsRequest_def
        requestedSchema_def JSON_parse_text_def editPromptsText_def)

lemma exampleEnv_edit:
  "snd (generateKeyframeWithEdit exampleEnv exampleImage (Some (JStr ''add a chef hat''))) =
     Returned ''V0VCUA==''"
  by (simp add: snd_generateKeyframeWithEdit exampleEnv_def editRequest_def)

lemma exampleEnv_keyframeStage_edit:
  "snd (keyframeStage exampleEnv exampleScript exampleEditBrief) =
     Returned (''V0VCUA=='', ''image/jpeg'', Some (JStr ''slow pan''))"
  by (simp add: snd_keyframeStage_edit exampleEditBrief_images exampleEnv_prompts_True
        exampleEnv_edit)
     (simp add: exampleImage_def)

lemma exampleEnv_poll_loop:
  "poll_loop exampleEnv 5 0 exampleOperation =
      ([SetTimeout 10000, GetVideosOperationCall exampleOperation,
        SetTimeout 10000, GetVideosOperationCall exampleOperation],
       Returned (exampleOperation\<lparr> op_done := True,
                      op_response := Some [Some ''https://video.example/1?alt=media''] \<rparr>))"
proof -
  have p0: "getVideosOperation exampleEnv 0 operation = Inr operation" for operation
    by (simp add: exampleEnv_def)
  have p1: "getVideosOperation exampleEnv (Suc 0) operation =
      Inr (operation\<lparr> op_done := True,
                      op_response := Some [Some ''https://video.example/1?alt=media''] \<rparr>)"
    for operation
    by (simp add: exampleEnv_def)
  show ?thesis
    by (simp add: numeral_nat io_bind_emit io_bind_call p0 p1 exampleOperation_def ret_def)
qed

lemma exampleEnv_generateVideo:
  "snd (generateVideo exampleEnv 5 vp kb km) = Returned ''https://video.example/1?alt=media''"
proof -
  have g: "generateVideos exampleEnv v = Inr exampleOperation" for v
    by (simp add: exampleEnv_def)
  show ?thesis
    by (simp add: generateVideo_cases g exampleEnv_poll_loop downloadLink_def)
qed

lemma exampleEnv_videoStage:
  "snd (videoStage exampleEnv 5 (kb, km, vp)) =
     Returned \<lparr> videoUrl = ''blob:MP4'', keyframeUrl = ''data:'' @ km @ '';base64,'' @ kb \<rparr>"
proof -
  have f: "fetch exampleEnv u = Inr \<lparr> ok = True, statusText = ''OK'', blob = Inr ''MP4'' \<rparr>"
    for u
    by (simp add: exampleEnv_def)
  have c: "createObjectURL exampleEnv ''MP4'' = ''blob:MP4''"
    by (simp add: exampleEnv_def)
  show ?thesis
    by (simp add: snd_videoStage exampleEnv_generateVideo f c)
qed

lemma exampleEnv_edit_run:
  "snd (generateVideoFromScript exampleEnv 5 exampleScript exampleEditBrief) =
     Returned \<lparr> videoUrl = ''blob:MP4'', keyframeUrl = ''data:image/jpeg;base64,V0VCUA=='' \<rparr>"
  by (simp add: snd_generateVideoFromScript exampleEnv_keyframeStage_edit exampleEnv_videoStage)

lemma exampleEnv_initial_keyframe:
  "snd (generateInitialKeyframe exampleEnv exampleScript ''7:3'') =
     Returned \<lparr> kf_base64 = ''UE5H'', kf_mimeType = ''image/png'' \<rparr>"
  by (simp add: snd_generateInitialKeyframe exampleEnv_def keyframePromptRequest_def
        requestedSchema_def)

lemma exampleEnv_prompts_False:
  "snd (getVideoGenerationPrompts exampleEnv exampleScript False) =
     Returned (JObj [(''videoPrompt'', JStr ''slow pan'')])"
  by (simp add: snd_getVideoGenerationPrompts exampleEnv_def videoPromptsRequest_def
        requestedSchema_def JSON_parse_text_def editPromptsText_def videoPromptText_def
        videoPromptsSchema_def)

lemma exampleEnv_synthesis_run:
  "snd (generateVideoFromScript exampleEnv 5 exampleScript exampleBrief) =
     Returned \<lparr> videoUrl = ''blob:MP4'', keyframeUrl = ''data:image/png;base64,UE5H'' \<rparr>"
proof -
  have n: "inspirationImages exampleBrief = []" and a: "aspectRatio exampleBrief = ''7:3''"
    by (simp_all add: exampleBrief_def)
  have "snd (keyframeStage exampleEnv exampleScript exampleBrief) =
          Returned (''UE5H'', ''image/png'', Some (JStr ''slow pan''))"
    by (simp add: snd_keyframeStage_synthesis n a exampleEnv_initial_keyframe
          exampleEnv_prompts_False)
  then show ?thesis
    by (simp add: snd_generateVideoFromScript exampleEnv_videoStage)
qed

theorem keyframe_media_type_witness:
  "snd (generateVideoFromScript exampleEnv 5 exampleScript exampleEditBrief) =
     Returned \<lparr> videoUrl = ''blob:MP4'', keyframeUrl = ''data:image/jpeg;base64,V0VCUA=='' \<rparr>
   \<and> (\<exists>d. ''data:image/jpeg;base64,V0VCUA=='' =
            ''data:'' @ mimeType (inspirationImages exampleEditBrief ! 0) @ '';base64,'' @ d)
   \<and> snd (generateVideoFromScript exampleEnv 5 exampleScript exampleBrief) =
     Returned \<lparr> videoUrl = ''blob:MP4'', keyframeUrl = ''data:image/png;base64,UE5H'' \<rparr>
   \<and> (\<exists>kf. snd (generateInitialKeyframe exampleEnv exampleScript (aspectRatio exampleBrief)) =
              Returned kf
           \<and> ''data:image/png;base64,UE5H'' = ''data:image/png;base64,'' @ kf_base64 kf)"
proof -
  have e: "length (inspirationImages exampleEditBrief) > 0"
    by (simp add: exampleEditBrief_images)
  have n: "inspirationImages exampleBrief = []"
    by (simp add: exampleBrief_def)
  from keyframe_media_type [OF exampleEnv_edit_run] e
  have 1: "\<exists>d. ''data:image/jpeg;base64,V0VCUA=='' =
            ''data:'' @ mimeType (inspirationImages exampleEditBrief ! 0) @ '';base64,'' @ d"
    by auto
  from keyframe_media_type [OF exampleEnv_synthesis_run] n
  have 2: "\<exists>kf. snd (generateInitialKeyframe exampleEnv exampleScript (aspectRatio exampleBrief)) =
              Returned kf
           \<and> ''data:image/png;base64,UE5H'' = ''data:image/png;base64,'' @ kf_base64 kf"
    by auto
  from 1 2 exampleEnv_edit_run exampleEnv_synthesis_run show ?thesis by blast
qed

section \<open>Failures of the pipeline\<close>

lemma run_of_failed_keyframeStage:
  "snd (keyframeStage w s b) = Threw e \<Longrightarrow>
     generateVideoFromScript w fuel s b =
       (fst (keyframeStage w s b) @ [ConsoleError ''Error in video generation pipeline:'' e],
        Threw pipelineFailed)"
  by (simp add: prod_eq_iff fst_generateVideoFromScript snd_generateVideoFromScript)

lemma run_of_failed_videoStage:
  "snd (keyframeStage w s b) = Returned k \<Longrightarrow> snd (videoStage w fuel k) = Threw e \<Longrightarrow>
     generateVideoFromScript w fuel s b =
       (fst (keyframeStage w s b) @ fst (videoStage w fuel k) @
          [ConsoleError ''Error in video generation pipeline:'' e],
        Threw pipelineFailed)"
  by (simp add: prod_eq_iff fst_generateVideoFromScript snd_generateVideoFromScript)

lemma only_pipelineFailed:
  "snd (generateVideoFromScript w fuel s b) = Threw e \<Longrightarrow> e = pipelineFailed"
  by (auto simp: snd_generateVideoFromScript split: outcome.splits)

lemma failed_edit_prompts:
  "length (inspirationImages b) > 0 \<Longrightarrow> snd (getVideoGenerationPrompts w s True) = Threw e \<Longrightarrow>
     snd (generateVideoFromScript w fuel s b) = Threw pipelineFailed"
  by (simp add: snd_generateVideoFromScript snd_keyframeStage_edit)

lemma failed_edit:
  assumes "length (inspirationImages b) > 0"
    and "snd (getVideoGenerationPrompts w s True) = Returned prompts"
    and "get_prop prompts ''keyframeEditPrompt'' = Inr kep"
    and "truthy kep"
    and "snd (generateKeyframeWithEdit w (inspirationImages b ! 0) kep) = Threw e"
  shows "snd (generateVideoFromScript w fuel s b) = Threw pipelineFailed"
proof -
  from assms(3) have "prompts \<noteq> JNull" using get_prop_Inr_iff by blast
  then obtain vp where "get_prop prompts ''videoPrompt'' = Inr vp"
    using get_prop_Inr_iff by blast
  with assms show ?thesis
    by (simp add: snd_generateVideoFromScript snd_keyframeStage_edit)
qed

lemma failed_synthesis:
  "inspirationImages b = [] \<Longrightarrow>
   snd (generateInitialKeyframe w s (aspectRatio b)) = Threw e \<Longrightarrow>
     snd (generateVideoFromScript w fuel s b) = Threw pipelineFailed"
  by (simp add: snd_generateVideoFromScript snd_keyframeStage_synthesis)

lemma failed_video_prompts:
  "inspirationImages b = [] \<Longrightarrow>
   snd (generateInitialKeyframe w s (aspectRatio b)) = Returned kf \<Longrightarrow>
   snd (getVideoGenerationPrompts w s False) = Threw e \<Longrightarrow>
     snd (generateVideoFromScript w fuel s b) = Threw pipelineFailed"
  by (simp add: snd_generateVideoFromScript snd_keyframeStage_synthesis)

lemma failed_video:
  "snd (keyframeStage w s b) = Returned (kb, km, vp) \<Longrightarrow>
   snd (generateVideo w fuel vp kb km) = Threw e \<Longrightarrow>
     snd (generateVideoFromScript w fuel s b) = Threw pipelineFailed"
  by (simp add: snd_generateVideoFromScript snd_videoStage)

lemma failed_fetch:
  "snd (keyframeStage w s b) = Returned (kb, km, vp) \<Longrightarrow>
   snd (generateVideo w fuel vp kb km) = Returned url \<Longrightarrow>
   fetch w (url @ ''&key='' @ API_KEY w) = Inl e \<Longrightarrow>
     snd (generateVideoFromScript w fuel s b) = Threw pipelineFailed"
  by (simp add: snd_generateVideoFromScript snd_videoStage)

lemma failed_download:
  "snd (keyframeStage w s b) = Returned (kb, km, vp) \<Longrightarrow>
   snd (generateVideo w fuel vp kb km) = Returned url \<Longrightarrow>
   fetch w (url @ ''&key='' @ API_KEY w) = Inr resp \<Longrightarrow>
   \<not> ok resp \<or> (\<exists>e. blob resp = Inl e) \<Longrightarrow>
     snd (generateVideoFromScript w fuel s b) = Threw pipelineFailed"
  by (auto simp: snd_generateVideoFromScript snd_videoStage)

text \<open>
  C3. The only error \<open>generateVideoFromScript\<close> ever throws is the one with the message
  \<^verbatim>\<open>Failed to generate the final video.\<close> Whenever the part of the \<^verbatim>\<open>try\<close> block that
  makes the keyframe throws, or the part after it does once the keyframe is made, the
  run logs the cause and throws that error: the outcome holds the error alone, no
  keyframe and no result. In particular this is the outcome when the prompts cannot be
  derived, when the image edit or the image synthesis fails, when the submission or the
  polling of the video fails or gives no link, and when the download is rejected, is not
  successful or gives no bytes.
\<close>

theorem pipeline_failure_uniform:
  "(\<forall>e. snd (generateVideoFromScript w fuel s b) = Threw e \<longrightarrow> e = pipelineFailed)
   \<and> (\<forall>e. snd (keyframeStage w s b) = Threw e \<longrightarrow>
         generateVideoFromScript w fuel s b =
           (fst (keyframeStage w s b) @ [ConsoleError ''Error in video generation pipeline:'' e],
            Threw pipelineFailed))
   \<and> (\<forall>k e. snd (keyframeStage w s b) = Returned k \<and> snd (videoStage w fuel k) = Threw e \<longrightarrow>
         generateVideoFromScript w fuel s b =
           (fst (keyframeStage w s b) @ fst (videoStage w fuel k) @
              [ConsoleError ''Error in video generation pipeline:'' e],
            Threw pipelineFailed))
   \<and> (length (inspirationImages b) > 0 \<longrightarrow>
        (\<forall>e. snd (getVideoGenerationPrompts w s True) = Threw e \<longrightarrow>
           snd (generateVideoFromScript w fuel s b) = Threw pipelineFailed)
      \<and> (\<forall>prompts kep e.
            snd (getVideoGenerationPrompts w s True) = Returned prompts
          \<and> get_prop prompts ''keyframeEditPrompt'' = Inr kep \<and> truthy kep
          \<and> snd (generateKeyframeWithEdit w (inspirationImages b ! 0) kep) = Threw e \<longrightarrow>
           snd (generateVideoFromScript w fuel s b) = Threw pipelineFailed))
   \<and> (inspirationImages b = [] \<longrightarrow>
        (\<forall>e. snd (generateInitialKeyframe w s (aspectRatio b)) = Threw e \<longrightarrow>
           snd (generateVideoFromScript w fuel s b) = Threw pipelineFailed)
      \<and> (\<forall>kf e. snd (generateInitialKeyframe w s (aspectRatio b)) = Returned kf
              \<and> snd (getVideoGenerationPrompts w s False) = Threw e \<longrightarrow>
           snd (generateVideoFromScript w fuel s b) = Threw pipelineFailed))
   \<and> (\<forall>kb km vp. snd (keyframeStage w s b) = Returned (kb, km, vp) \<longrightarrow>
        (\<forall>e. snd (generateVideo w fuel vp kb km) = Threw e \<longrightarrow>
           snd (generateVideoFromScript w fuel s b) = Threw pipelineFailed)
      \<and> (\<forall>url. snd (generateVideo w fuel vp kb km) = Returned url \<longrightarrow>
           (\<forall>e. fetch w (url @ ''&key='' @ API_KEY w) = Inl e \<longrightarrow>
              snd (generateVideoFromScript w fuel s b) = Threw pipelineFailed)
         \<and> (\<forall>resp. fetch w (url @ ''&key='' @ API_KEY w) = Inr resp
                  \<and> (\<not> ok resp \<or> (\<exists>e. blob resp = Inl e)) \<longrightarrow>
              snd (generateVideoFromScript w fuel s b) = Threw pipelineFailed)))"
proof -
  have 1: "\<forall>e. snd (generateVideoFromScript w fuel s b) = Threw e \<longrightarrow> e = pipelineFailed"
    using only_pipelineFailed by blast
  have 2: "\<forall>e. snd (keyframeStage w s b) = Threw e \<longrightarrow>
         generateVideoFromScript w fuel s b =
           (fst (keyframeStage w s b) @ [ConsoleError ''Error in video generation pipeline:'' e],
            Threw pipelineFailed)"
    using run_of_failed_keyframeStage by blast
  have 3: "\<forall>k e. snd (keyframeStage w s b) = Returned k \<and> snd (videoStage w fuel k) = Threw e \<longrightarrow>
         generateVideoFromScript w fuel s b =
           (fst (keyframeStage w s b) @ fst (videoStage w fuel k) @
              [ConsoleError ''Error in video generation pipeline:'' e],
            Threw pipelineFailed)"
    using run_of_failed_videoStage by blast
  have 4: "length (inspirationImages b) > 0 \<longrightarrow>
        (\<forall>e. snd (getVideoGenerationPrompts w s True) = Threw e \<longrightarrow>
           snd (generateVideoFromScript w fuel s b) = Threw pipelineFailed)
      \<and> (\<forall>prompts kep e.
            snd (getVideoGenerationPrompts w s True) = Returned prompts
          \<and> get_prop prompts ''keyframeEditPrompt'' = Inr kep \<and> truthy kep
          \<and> snd (generateKeyframeWithEdit w (inspirationImages b ! 0) kep) = Threw e \<longrightarrow>
           snd (generateVideoFromScript w fuel s b) = Threw pipelineFailed)"
    using failed_edit_prompts [of b w s _ fuel] failed_edit [of b w s _ _ _ fuel] by blast
  have 5: "inspirationImages b = [] \<longrightarrow>
        (\<forall>e. snd (generateInitialKeyframe w s (aspectRatio b)) = Threw e \<longrightarrow>
           snd (generateVideoFromScript w fuel s b) = Threw pipelineFailed)
      \<and> (\<forall>kf e. snd (generateInitialKeyframe w s (aspectRatio b)) = Returned kf
              \<and> snd (getVideoGenerationPrompts w s False) = Threw e \<longrightarrow>
           snd (generateVideoFromScript w fuel s b) = Threw pipelineFailed)"
    using failed_synthesis [of b w s _ fuel] failed_video_prompts [of b w s _ _ fuel] by blast
  have 6: "\<forall>kb km vp. snd (keyframeStage w s b) = Returned (kb, km, vp) \<longrightarrow>
        (\<forall>e. snd (generateVideo w fuel vp kb km) = Threw e \<longrightarrow>
           snd (generateVideoFromScript w fuel s b) = Threw pipelineFailed)
      \<and> (\<forall>url. snd (generateVideo w fuel vp kb km) = Returned url \<longrightarrow>
           (\<forall>e. fetch w (url @ ''&key='' @ API_KEY w) = Inl e \<longrightarrow>
              snd (generateVideoFromScript w fuel s b) = Threw pipelineFailed)
         \<and> (\<forall>resp. fetch w (url @ ''&key='' @ API_KEY w) = Inr resp
                  \<and> (\<not> ok resp \<or> (\<exists>e. blob resp = Inl e)) \<longrightarrow>
              snd (generateVideoFromScript w fuel s b) = Threw pipelineFailed))"
    using failed_video [of w s b _ _ _ fuel] failed_fetch [of w s b _ _ _ fuel]
      failed_download [of w s b _ _ _ fuel]
    by blast
  from 1 2 3 4 5 6 show ?thesis by blast
qed

lemma noImageEnv_prompts:
  "snd (getVideoGenerationPrompts noImageEnv exampleScript True) =
     Returned (JObj [(''videoPrompt'', JStr ''slow pan''),
                     (''keyframeEditPrompt'', JStr ''add a chef hat'')])"
  by (simp add: snd_getVideoGenerationPrompts noImageEnv_def exampleEnv_def
        videoPromptsRequest_def requestedSchema_def JSON_parse_text_def editPromptsText_def)

lemma noImageEnv_edit:
  "snd (generateKeyframeWithEdit noImageEnv exampleImage (Some (JStr ''add a chef hat''))) =
     Threw (Error ''Nano Banana model did not return an image.'')"
  by (simp add: snd_generateKeyframeWithEdit noImageEnv_def editRequest_def)

lemma noVideoEnv_keyframeStage:
  "snd (keyframeStage noVideoEnv exampleScript exampleEditBrief) =
     Returned (''V0VCUA=='', ''image/jpeg'', Some (JStr ''slow pan''))"
proof -
  have p: "snd (getVideoGenerationPrompts noVideoEnv exampleScript True) =
     Returned (JObj [(''videoPrompt'', JStr ''slow pan''),
                     (''keyframeEditPrompt'', JStr ''add a chef hat'')])"
    by (simp add: snd_getVideoGenerationPrompts noVideoEnv_def exampleEnv_def
        videoPromptsRequest_def requestedSchema_def JSON_parse_text_def editPromptsText_def)
  have e: "snd (generateKeyframeWithEdit noVideoEnv exampleImage (Some (JStr ''add a chef hat''))) =
     Returned ''V0VCUA==''"
    by (simp add: snd_generateKeyframeWithEdit noVideoEnv_def exampleEnv_def editRequest_def)
  show ?thesis
    by (simp add: snd_keyframeStage_edit exampleEditBrief_images p e)
       (simp add: exampleImage_def)
qed

lemma noVideoEnv_generateVideo:
  "snd (generateVideo noVideoEnv fuel vp kb km) = Threw (Rejected ''quota'')"
  by (simp add: generateVideo_cases noVideoEnv_def)

theorem pipeline_failure_uniform_witness:
  "snd (generateKeyframeWithEdit noImageEnv (inspirationImages exampleEditBrief ! 0)
          (Some (JStr ''add a chef hat''))) =
     Threw (Error ''Nano Banana model did not return an image.'')
   \<and> snd (generateVideoFromScript noImageEnv 5 exampleScript exampleEditBrief) =
       Threw pipelineFailed
   \<and> snd (keyframeStage noVideoEnv exampleScript exampleEditBrief) =
       Returned (''V0VCUA=='', ''image/jpeg'', Some (JStr ''slow pan''))
   \<and> snd (generateVideo noVideoEnv 5 (Some (JStr ''slow pan'')) ''V0VCUA=='' ''image/jpeg'') =
       Threw (Rejected ''quota'')
   \<and> snd (generateVideoFromScript noVideoEnv 5 exampleScript exampleEditBrief) =
       Threw pipelineFailed"
proof -
  have e: "length (inspirationImages exampleEditBrief) > 0"
    by (simp add: exampleEditBrief_images)
  have i: "inspirationImages exampleEditBrief ! 0 = exampleImage"
    by (simp add: exampleEditBrief_images)
  have g: "get_prop (JObj [(''videoPrompt'', JStr ''slow pan''),
                           (''keyframeEditPrompt'', JStr ''add a chef hat'')])
             ''keyframeEditPrompt'' = Inr (Some (JStr ''add a chef hat''))"
    by simp
  have t: "truthy (Some (JStr ''add a chef hat''))"
    by simp
  have 1: "snd (generateVideoFromScript noImageEnv 5 exampleScript exampleEditBrief) =
       Threw pipelineFailed"
    using pipeline_failure_uniform [of noImageEnv 5 exampleScript exampleEditBrief]
      e i noImageEnv_prompts noImageEnv_edit g t
    by metis
  have 2: "snd (generateVideoFromScript noVideoEnv 5 exampleScript exampleEditBrief) =
       Threw pipelineFailed"
    using pipeline_failure_uniform [of noVideoEnv 5 exampleScript exampleEditBrief]
      noVideoEnv_keyframeStage noVideoEnv_generateVideo
    by metis
  from 1 2 i noImageEnv_edit noVideoEnv_keyframeStage noVideoEnv_generateVideo
  show ?thesis by simp
qed

section \<open>The branch of the pipeline\<close>

lemma fst_videoStage_starts:
  "\<exists>rest. fst (videoStage w fuel (kb, km, vp)) =
     [msgGeneratingVideo, GenerateVideosCall (videosRequest vp kb km)] @ rest"
  by (simp add: fst_videoStage generateVideo_cases split: sum.splits)

lemma edit_branch_keyframe:
  assumes "length (inspirationImages b) > 0"
    and "snd (getVideoGenerationPrompts w s True) = Returned prompts"
    and "get_prop prompts ''videoPrompt'' = Inr vp"
    and "get_prop prompts ''keyframeEditPrompt'' = Inr kep"
    and "truthy kep"
    and "snd (generateKeyframeWithEdit w (inspirationImages b ! 0) kep) = Returned d"
  shows "snd (keyframeStage w s b) = Returned (d, mimeType (inspirationImages b ! 0), vp)"
    and "\<exists>rest. fst (generateVideoFromScript w fuel s b) =
           [msgDevelopingPrompts, GenerateContentCall (videoPromptsRequest s True),
            msgEditingImage,
            GenerateContentCall (editRequest (inspirationImages b ! 0) kep),
            msgGeneratingVideo,
            GenerateVideosCall (videosRequest vp d (mimeType (inspirationImages b ! 0)))] @ rest"
proof -
  show k: "snd (keyframeStage w s b) = Returned (d, mimeType (inspirationImages b ! 0), vp)"
    using assms by (simp add: snd_keyframeStage_edit)
  have f: "fst (keyframeStage w s b) =
             [msgDevelopingPrompts, GenerateContentCall (videoPromptsRequest s True),
              msgEditingImage,
              GenerateContentCall (editRequest (inspirationImages b ! 0) kep)]"
    using assms by (simp add: fst_keyframeStage_edit)
  from fst_videoStage_starts [of w fuel d "mimeType (inspirationImages b ! 0)" vp]
  obtain rest where
    "fst (videoStage w fuel (d, mimeType (inspirationImages b ! 0), vp)) =
       [msgGeneratingVideo,
        GenerateVideosCall (videosRequest vp d (mimeType (inspirationImages b ! 0)))] @ rest"
    by blast
  then show "\<exists>rest. fst (generateVideoFromScript w fuel s b) =
           [msgDevelopingPrompts, GenerateContentCall (videoPromptsRequest s True),
            msgEditingImage,
            GenerateContentCall (editRequest (inspirationImages b ! 0) kep),
            msgGeneratingVideo,
            GenerateVideosCall (videosRequest vp d (mimeType (inspirationImages b ! 0)))] @ rest"
    by (simp add: fst_generateVideoFromScript k f)
qed

lemma synthesis_branch_image_call:
  assumes "inspirationImages b = []"
    and "generateContent w (keyframePromptRequest s (aspectRatio b)) = Inr r"
    and "resp_text r = Some t"
  shows "\<exists>rest. fst (generateVideoFromScript w fuel s b) =
           [msgGeneratingKeyframe,
            GenerateContentCall (keyframePromptRequest s (aspectRatio b)),
            GenerateImagesCall (imagesRequest (trim t) (aspectRatio b))] @ rest"
  using assms
  by (simp add: fst_generateVideoFromScript fst_keyframeStage_synthesis
        fst_generateInitialKeyframe)

lemma returned_initial_keyframe:
  assumes "snd (generateInitialKeyframe w s ar) = Returned kf"
  shows "kf_mimeType kf = ''image/png''"
    and "\<exists>p. fst (generateInitialKeyframe w s ar) =
               [GenerateContentCall (keyframePromptRequest s ar),
                GenerateImagesCall (imagesRequest p ar)]"
  using assms
  by (auto simp: snd_generateInitialKeyframe fst_generateInitialKeyframe
           split: sum.splits option.splits list.splits)

lemma synthesis_branch_prompts_call:
  assumes "inspirationImages b = []"
    and "snd (generateInitialKeyframe w s (aspectRatio b)) = Returned kf"
  shows "\<exists>p rest. fst (generateVideoFromScript w fuel s b) =
           [msgGeneratingKeyframe,
            GenerateContentCall (keyframePromptRequest s (aspectRatio b)),
            GenerateImagesCall (imagesRequest p (aspectRatio b)),
            msgDevelopingVideoPrompt,
            GenerateContentCall (videoPromptsRequest s False)] @ rest"
proof -
  from returned_initial_keyframe(2) [OF assms(2)] obtain p where
    "fst (generateInitialKeyframe w s (aspectRatio b)) =
       [GenerateContentCall (keyframePromptRequest s (aspectRatio b)),
        GenerateImagesCall (imagesRequest p (aspectRatio b))]"
    by blast
  with assms show ?thesis
    by (auto simp: fst_generateVideoFromScript fst_keyframeStage_synthesis)
qed

lemma synthesis_branch_keyframe:
  assumes "inspirationImages b = []"
    and "snd (generateInitialKeyframe w s (aspectRatio b)) = Returned kf"
    and "snd (getVideoGenerationPrompts w s False) = Returned prompts"
    and "get_prop prompts ''videoPrompt'' = Inr vp"
  shows "snd (keyframeStage w s b) = Returned (kf_base64 kf, ''image/png'', vp)"
    and "\<exists>p rest. fst (generateVideoFromScript w fuel s b) =
           [msgGeneratingKeyframe,
            GenerateContentCall (keyframePromptRequest s (aspectRatio b)),
            GenerateImagesCall (imagesRequest p (aspectRatio b)),
            msgDevelopingVideoPrompt,
            GenerateContentCall (videoPromptsRequest s False),
            msgGeneratingVideo,
            GenerateVideosCall (videosRequest vp (kf_base64 kf) ''image/png'')] @ rest"
proof -
  show k: "snd (keyframeStage w s b) = Returned (kf_base64 kf, ''image/png'', vp)"
    using assms returned_initial_keyframe(1) [OF assms(2)]
    by (simp add: snd_keyframeStage_synthesis)
  from returned_initial_keyframe(2) [OF assms(2)] obtain p where
    "fst (generateInitialKeyframe w s (aspectRatio b)) =
       [GenerateContentCall (keyframePromptRequest s (aspectRatio b)),
        GenerateImagesCall (imagesRequest p (aspectRatio b))]"
    by blast
  with assms have f: "fst (keyframeStage w s b) =
           [msgGeneratingKeyframe,
            GenerateContentCall (keyframePromptRequest s (aspectRatio b)),
            GenerateImagesCall (imagesRequest p (aspectRatio b)),
            msgDevelopingVideoPrompt,
            GenerateContentCall (videoPromptsRequest s False)]"
    by (simp add: fst_keyframeStage_synthesis)
  from fst_videoStage_starts [of w fuel "kf_base64 kf" "''image/png''" vp]
  obtain rest where
    "fst (videoStage w fuel (kf_base64 kf, ''image/png'', vp)) =
       [msgGeneratingVideo,
        GenerateVideosCall (videosRequest vp (kf_base64 kf) ''image/png'')] @ rest"
    by blast
  then have "fst (generateVideoFromScript w fuel s b) =
           [msgGeneratingKeyframe,
            GenerateContentCall (keyframePromptRequest s (aspectRatio b)),
            GenerateImagesCall (imagesRequest p (aspectRatio b)),
            msgDevelopingVideoPrompt,
            GenerateContentCall (videoPromptsRequest s False),
            msgGeneratingVideo,
            GenerateVideosCall (videosRequest vp (kf_base64 kf) ''image/png'')] @
           (rest @ (case snd (videoStage w fuel (kf_base64 kf, ''image/png'', vp)) of
                      Threw e \<Rightarrow> [ConsoleError ''Error in video generation pipeline:'' e]
                    | _ \<Rightarrow> []))"
    by (simp add: fst_generateVideoFromScript k f)
  then show "\<exists>p rest. fst (generateVideoFromScript w fuel s b) =
           [msgGeneratingKeyframe,
            GenerateContentCall (keyframePromptRequest s (aspectRatio b)),
            GenerateImagesCall (imagesRequest p (aspectRatio b)),
            msgDevelopingVideoPrompt,
            GenerateContentCall (videoPromptsRequest s False),
            msgGeneratingVideo,
            GenerateVideosCall (videosRequest vp (kf_base64 kf) ''image/png'')] @ rest"
    by blast
qed

text \<open>
  C7. When the brief has an inspiration image, the run takes the edit path. It reports
  the development of the prompts and asks for them with the edit prompt in the schema;
  once they are derived with an edit prompt, it reports the editing and calls the edit
  of the first inspiration image with that prompt; once the edit has returned an image,
  that image, with the media type of the first inspiration image, is the keyframe the
  video is generated from. The run never calls the image synthesis, and its only calls of
  the content model are the request for the prompts and that edit. When the brief has no
  inspiration image, the run takes the synthesis path. It reports the generation of the
  keyframe and asks for an image prompt; once the text model has answered, it calls the
  image synthesis; once the keyframe is synthesized, it reports and asks for the
  prompts without the edit prompt; once they are derived, the synthesized image, as
  \<^verbatim>\<open>image/png\<close>, is the keyframe the video is generated from. The run never calls the
  image edit. The inspiration videos and the inspiration audio change nothing in the
  run.
\<close>

theorem branch_by_inspiration_images:
  "(length (inspirationImages b) > 0 \<longrightarrow>
      (\<exists>t. fst (generateVideoFromScript w fuel s b) =
             msgDevelopingPrompts # GenerateContentCall (videoPromptsRequest s True) # t)
    \<and> (\<forall>req. GenerateImagesCall req \<notin> set (fst (generateVideoFromScript w fuel s b)))
    \<and> (\<forall>req. GenerateContentCall req \<in> set (fst (generateVideoFromScript w fuel s b)) \<longrightarrow>
          req = videoPromptsRequest s True
          \<or> (\<exists>kep. req = editRequest (inspirationImages b ! 0) kep))
    \<and> (\<forall>prompts vp kep.
          snd (getVideoGenerationPrompts w s True) = Returned prompts
        \<and> get_prop prompts ''videoPrompt'' = Inr vp
        \<and> get_prop prompts ''keyframeEditPrompt'' = Inr kep \<and> truthy kep \<longrightarrow>
          (\<exists>rest. fst (generateVideoFromScript w fuel s b) =
             [msgDevelopingPrompts, GenerateContentCall (videoPromptsRequest s True),
              msgEditingImage,
              GenerateContentCall (editRequest (inspirationImages b ! 0) kep)] @ rest)
        \<and> (\<forall>d. snd (generateKeyframeWithEdit w (inspirationImages b ! 0) kep) = Returned d \<longrightarrow>
              snd (keyframeStage w s b) =
                Returned (d, mimeType (inspirationImages b ! 0), vp)
            \<and> (\<exists>rest. fst (generateVideoFromScript w fuel s b) =
                 [msgDevelopingPrompts, GenerateContentCall (videoPromptsRequest s True),
                  msgEditingImage,
                  GenerateContentCall (editRequest (inspirationImages b ! 0) kep),
                  msgGeneratingVideo,
                  GenerateVideosCall
                    (videosRequest vp d (mimeType (inspirationImages b ! 0)))] @ rest))))
   \<and> (inspirationImages b = [] \<longrightarrow>
      (\<exists>t. fst (generateVideoFromScript w fuel s b) =
             msgGeneratingKeyframe #
             GenerateContentCall (keyframePromptRequest s (aspectRatio b)) # t)
    \<and> (\<forall>req. GenerateContentCall req \<in> set (fst (generateVideoFromScript w fuel s b)) \<longrightarrow>
          req = keyframePromptRequest s (aspectRatio b) \<or> req = videoPromptsRequest s False)
    \<and> (\<forall>r t. generateContent w (keyframePromptRequest s (aspectRatio b)) = Inr r
             \<and> resp_text r = Some t \<longrightarrow>
          (\<exists>rest. fst (generateVideoFromScript w fuel s b) =
             [msgGeneratingKeyframe,
              GenerateContentCall (keyframePromptRequest s (aspectRatio b)),
              GenerateImagesCall (imagesRequest (trim t) (aspectRatio b))] @ rest))
    \<and> (\<forall>kf. snd (generateInitialKeyframe w s (aspectRatio b)) = Returned kf \<longrightarrow>
          (\<exists>p rest. fst (generateVideoFromScript w fuel s b) =
             [msgGeneratingKeyframe,
              GenerateContentCall (keyframePromptRequest s (aspectRatio b)),
              GenerateImagesCall (imagesRequest p (aspectRatio b)),
              msgDevelopingVideoPrompt,
              GenerateContentCall (videoPromptsRequest s False)] @ rest)
        \<and> (\<forall>prompts vp.
              snd (getVideoGenerationPrompts w s False) = Returned prompts
            \<and> get_prop prompts ''videoPrompt'' = Inr vp \<longrightarrow>
              snd (keyframeStage w s b) = Returned (kf_base64 kf, ''image/png'', vp)
            \<and> (\<exists>p rest. fst (generateVideoFromScript w fuel s b) =
                 [msgGeneratingKeyframe,
                  GenerateContentCall (keyframePromptRequest s (aspectRatio b)),
                  GenerateImagesCall (imagesRequest p (aspectRatio b)),
                  msgDevelopingVideoPrompt,
                  GenerateContentCall (videoPromptsRequest s False),
                  msgGeneratingVideo,
                  GenerateVideosCall
                    (videosRequest vp (kf_base64 kf) ''image/png'')] @ rest))))
   \<and> generateVideoFromScript w fuel s (b\<lparr>inspirationVideos := vs, inspirationAudio := a\<rparr>) =
       generateVideoFromScript w fuel s b"
proof -
  have e1: "\<exists>t. fst (generateVideoFromScript w fuel s b) =
             msgDevelopingPrompts # GenerateContentCall (videoPromptsRequest s True) # t"
    if "length (inspirationImages b) > 0"
    using that by (simp add: fst_generateVideoFromScript fst_keyframeStage_edit)
  have e2: "\<forall>req. GenerateImagesCall req \<notin> set (fst (generateVideoFromScript w fuel s b))"
    if "length (inspirationImages b) > 0"
    using that edit_branch_no_images_call by blast
  have e3: "\<forall>req. GenerateContentCall req \<in> set (fst (generateVideoFromScript w fuel s b)) \<longrightarrow>
          req = videoPromptsRequest s True
          \<or> (\<exists>kep. req = editRequest (inspirationImages b ! 0) kep)"
    if "length (inspirationImages b) > 0"
    using that edit_branch_content_calls [of b _ w fuel s] by blast
  have e4: "\<forall>prompts vp kep.
          snd (getVideoGenerationPrompts w s True) = Returned prompts
        \<and> get_prop prompts ''videoPrompt'' = Inr vp
        \<and> get_prop prompts ''keyframeEditPrompt'' = Inr kep \<and> truthy kep \<longrightarrow>
          (\<exists>rest. fst (generateVideoFromScript w fuel s b) =
             [msgDevelopingPrompts, GenerateContentCall (videoPromptsRequest s True),
              msgEditingImage,
              GenerateContentCall (editRequest (inspirationImages b ! 0) kep)] @ rest)
        \<and> (\<forall>d. snd (generateKeyframeWithEdit w (inspirationImages b ! 0) kep) = Returned d \<longrightarrow>
              snd (keyframeStage w s b) =
                Returned (d, mimeType (inspirationImages b ! 0), vp)
            \<and> (\<exists>rest. fst (generateVideoFromScript w fuel s b) =
                 [msgDevelopingPrompts, GenerateContentCall (videoPromptsRequest s True),
                  msgEditingImage,
                  GenerateContentCall (editRequest (inspirationImages b ! 0) kep),
                  msgGeneratingVideo,
                  GenerateVideosCall
                    (videosRequest vp d (mimeType (inspirationImages b ! 0)))] @ rest))"
    if e: "length (inspirationImages b) > 0"
    using edit_branch_present_prompt [OF e, of w s _ _ fuel]
      edit_branch_keyframe(1) [OF e, of w s]
      edit_branch_keyframe(2) [OF e, of w s _ _ _ _ fuel]
    by blast
  have s1: "\<exists>t. fst (generateVideoFromScript w fuel s b) =
             msgGeneratingKeyframe #
             GenerateContentCall (keyframePromptRequest s (aspectRatio b)) # t"
    if "inspirationImages b = []"
    using that
    by (simp add: fst_generateVideoFromScript fst_keyframeStage_synthesis
          fst_generateInitialKeyframe)
  have s2: "\<forall>req. GenerateContentCall req \<in> set (fst (generateVideoFromScript w fuel s b)) \<longrightarrow>
          req = keyframePromptRequest s (aspectRatio b) \<or> req = videoPromptsRequest s False"
    if "inspirationImages b = []"
    using that synthesis_branch_content_calls [of b _ w fuel s] by blast
  have s3: "\<forall>r t. generateContent w (keyframePromptRequest s (aspectRatio b)) = Inr r
             \<and> resp_text r = Some t \<longrightarrow>
          (\<exists>rest. fst (generateVideoFromScript w fuel s b) =
             [msgGeneratingKeyframe,
              GenerateContentCall (keyframePromptRequest s (aspectRatio b)),
              GenerateImagesCall (imagesRequest (trim t) (aspectRatio b))] @ rest)"
    if n: "inspirationImages b = []"
    using synthesis_branch_image_call [OF n, of w s _ _ fuel] by blast
  have s4: "\<forall>kf. snd (generateInitialKeyframe w s (aspectRatio b)) = Returned kf \<longrightarrow>
          (\<exists>p rest. fst (generateVideoFromScript w fuel s b) =
             [msgGeneratingKeyframe,
              GenerateContentCall (keyframePromptRequest s (aspectRatio b)),
              GenerateImagesCall (imagesRequest p (aspectRatio b)),
              msgDevelopingVideoPrompt,
              GenerateContentCall (videoPromptsRequest s False)] @ rest)
        \<and> (\<forall>prompts vp.
              snd (getVideoGenerationPrompts w s False) = Returned prompts
            \<and> get_prop prompts ''videoPrompt'' = Inr vp \<longrightarrow>
              snd (keyframeStage w s b) = Returned (kf_base64 kf, ''image/png'', vp)
            \<and> (\<exists>p rest. fst (generateVideoFromScript w fuel s b) =
                 [msgGeneratingKeyframe,
                  GenerateContentCall (keyframePromptRequest s (aspectRatio b)),
                  GenerateImagesCall (imagesRequest p (aspectRatio b)),
                  msgDevelopingVideoPrompt,
                  GenerateContentCall (videoPromptsRequest s False),
                  msgGeneratingVideo,
                  GenerateVideosCall
                    (videosRequest vp (kf_base64 kf) ''image/png'')] @ rest))"
    if n: "inspirationImages b = []"
    using synthesis_branch_prompts_call [OF n, of w s _ fuel]
      synthesis_branch_keyframe(1) [OF n, of w s]
      synthesis_branch_keyframe(2) [OF n, of w s _ _ _ fuel]
    by blast
  have "keyframeStage w s (b\<lparr>inspirationVideos := vs, inspirationAudio := a\<rparr>) =
          keyframeStage w s b"
    by (simp add: keyframeStage_def)
  then have i: "generateVideoFromScript w fuel s (b\<lparr>inspirationVideos := vs, inspirationAudio := a\<rparr>) =
       generateVideoFromScript w fuel s b"
    by (simp add: generateVideoFromScript_def)
  from e1 e2 e3 e4 s1 s2 s3 s4 i show ?thesis by blast
qed

theorem branch_by_inspiration_images_witness:
  "(\<exists>rest. fst (generateVideoFromScript exampleEnv 5 exampleScript exampleEditBrief) =
      [msgDevelopingPrompts, GenerateContentCall (videoPromptsRequest exampleScript True),
       msgEditingImage,
       GenerateContentCall (editRequest exampleImage (Some (JStr ''add a chef hat''))),
       msgGeneratingVideo,
       GenerateVideosCall
         (videosRequest (Some (JStr ''slow pan'')) ''V0VCUA=='' ''image/jpeg'')] @ rest)
   \<and> (\<forall>req. GenerateImagesCall req
         \<notin> set (fst (generateVideoFromScript exampleEnv 5 exampleScript exampleEditBrief)))
   \<and> (\<exists>p rest. fst (generateVideoFromScript exampleEnv 5 exampleScript exampleBrief) =
      [msgGeneratingKeyframe,
       GenerateContentCall (keyframePromptRequest exampleScript ''7:3''),
       GenerateImagesCall (imagesRequest p ''7:3''),
       msgDevelopingVideoPrompt,
       GenerateContentCall (videoPromptsRequest exampleScript False),
       msgGeneratingVideo,
       GenerateVideosCall (videosRequest (Some (JStr ''slow pan'')) ''UE5H'' ''image/png'')] @ rest)
   \<and> generateVideoFromScript exampleEnv 5 exampleScript
       (exampleEditBrief\<lparr>inspirationVideos := [exampleImage], inspirationAudio := Some exampleAudio\<rparr>) =
     generateVideoFromScript exampleEnv 5 exampleScript exampleEditBrief"
proof -
  have e: "length (inspirationImages exampleEditBrief) > 0"
    and i: "inspirationImages exampleEditBrief ! 0 = exampleImage"
    by (simp_all add: exampleEditBrief_images)
  have m: "mimeType exampleImage = ''image/jpeg''"
    by (simp add: exampleImage_def)
  have n: "inspirationImages exampleBrief = []" and a: "aspectRatio exampleBrief = ''7:3''"
    by (simp_all add: exampleBrief_def)
  have g1: "get_prop (JObj [(''videoPrompt'', JStr ''slow pan''),
                            (''keyframeEditPrompt'', JStr ''add a chef hat'')])
              ''videoPrompt'' = Inr (Some (JStr ''slow pan''))"
    and g2: "get_prop (JObj [(''videoPrompt'', JStr ''slow pan''),
                            (''keyframeEditPrompt'', JStr ''add a chef hat'')])
              ''keyframeEditPrompt'' = Inr (Some (JStr ''add a chef hat''))"
    and g3: "get_prop (JObj [(''videoPrompt'', JStr ''slow pan'')]) ''videoPrompt'' =
               Inr (Some (JStr ''slow pan''))"
    and t: "truthy (Some (JStr ''add a chef hat''))"
    by simp_all
  note E = branch_by_inspiration_images
            [where b = exampleEditBrief and w = exampleEnv and fuel = 5 and s = exampleScript
               and vs = "[exampleImage]" and a = "Some exampleAudio"]
  note S = branch_by_inspiration_images
            [where b = exampleBrief and w = exampleEnv and fuel = 5 and s = exampleScript
               and vs = "[]" and a = None]
  have 1: "\<exists>rest. fst (generateVideoFromScript exampleEnv 5 exampleScript exampleEditBrief) =
      [msgDevelopingPrompts, GenerateContentCall (videoPromptsRequest exampleScript True),
       msgEditingImage,
       GenerateContentCall (editRequest exampleImage (Some (JStr ''add a chef hat''))),
       msgGeneratingVideo,
       GenerateVideosCall
         (videosRequest (Some (JStr ''slow pan'')) ''V0VCUA=='' ''image/jpeg'')] @ rest"
    using E e i m exampleEnv_prompts_True exampleEnv_edit g1 g2 t by metis
  have 2: "\<forall>req. GenerateImagesCall req
         \<notin> set (fst (generateVideoFromScript exampleEnv 5 exampleScript exampleEditBrief))"
    using E e by blast
  have 3: "\<exists>p rest. fst (generateVideoFromScript exampleEnv 5 exampleScript exampleBrief) =
      [msgGeneratingKeyframe,
       GenerateContentCall (keyframePromptRequest exampleScript ''7:3''),
       GenerateImagesCall (imagesRequest p ''7:3''),
       msgDevelopingVideoPrompt,
       GenerateContentCall (videoPromptsRequest exampleScript False),
       msgGeneratingVideo,
       GenerateVideosCall (videosRequest (Some (JStr ''slow pan'')) ''UE5H'' ''image/png'')] @ rest"
  proof -
    have k: "snd (generateInitialKeyframe exampleEnv exampleScript (aspectRatio exampleBrief)) =
               Returned \<lparr> kf_base64 = ''UE5H'', kf_mimeType = ''image/png'' \<rparr>"
      using exampleEnv_initial_keyframe a by simp
    from S n k exampleEnv_prompts_False g3
    have "\<exists>p rest. fst (generateVideoFromScript exampleEnv 5 exampleScript exampleBrief) =
      [msgGeneratingKeyframe,
       GenerateContentCall (keyframePromptRequest exampleScript (aspectRatio exampleBrief)),
       GenerateImagesCall (imagesRequest p (aspectRatio exampleBrief)),
       msgDevelopingVideoPrompt,
       GenerateContentCall (videoPromptsRequest exampleScript False),
       msgGeneratingVideo,
       GenerateVideosCall
         (videosRequest (Some (JStr ''slow pan''))
            (kf_base64 \<lparr> kf_base64 = ''UE5H'', kf_mimeType = ''image/png'' \<rparr>) ''image/png'')] @ rest"
      by blast
    then show ?thesis by (simp add: a)
  qed
  have 4: "generateVideoFromScript exampleEnv 5 exampleScript
       (exampleEditBrief\<lparr>inspirationVideos := [exampleImage], inspirationAudio := Some exampleAudio\<rparr>) =
     generateVideoFromScript exampleEnv 5 exampleScript exampleEditBrief"
    using E by blast
  from 1 2 3 4 show ?thesis by blast
qed

end
